theory Spec2Isabelle
  imports Complex_Main "HOL-Library.Sublist"
begin

section \<open>Python values shared by the notebooks\<close>

text \<open>
  The repository is a set of Jupyter notebooks. The code cells that compute something are
  embedded as HOL functions; a Python exception is a value of \<open>pyexc\<close>, and a cell that
  can raise returns a sum whose left injection is the exception.
  Python strings are \<open>string\<close>; \<open>needle in line\<close> on strings is \<open>sublist needle line\<close> and
  \<open>s.startswith(p)\<close> is \<open>prefix p s\<close>.
\<close>

datatype exc_class =
    FileNotFoundError | NotADirectoryError | PermissionError | OSError | ShutilError
  | ValueError | IndexError | KeyboardInterrupt | SystemExit

datatype pyexc = Exc (exc_cls: exc_class) (exc_msg: string)

text \<open>\<open>isinstance(e, Exception)\<close>: every class but the two that derive from BaseException only.\<close>

fun is_Exception :: "exc_class \<Rightarrow> bool" where
  "is_Exception KeyboardInterrupt = False"
| "is_Exception SystemExit = False"
| "is_Exception _ = True"

definition digits10 :: string where
  "digits10 = ''0123456789''"

text \<open>\<open>str(n)\<close> for a non-negative integer, as an f-string formats it.\<close>

function str_nat :: "nat \<Rightarrow> string" where
  "str_nat n = (if n < 10 then [digits10 ! n] else str_nat (n div 10) @ [digits10 ! (n mod 10)])"
  by pat_completeness auto
termination
  by (relation "measure id") auto

declare str_nat.simps [simp del]

text \<open>\<open>c.lower()\<close> on an ASCII character.\<close>

definition to_lower :: "char \<Rightarrow> char" where
  "to_lower c =
     (case map_of (zip ''ABCDEFGHIJKLMNOPQRSTUVWXYZ'' ''abcdefghijklmnopqrstuvwxyz'') c of
        None \<Rightarrow> c
      | Some l \<Rightarrow> l)"

text \<open>\<open>s.split(sep)\<close> for a one-character separator; \<open>cur\<close> is the field being read.\<close>

fun split_on :: "char \<Rightarrow> string \<Rightarrow> string \<Rightarrow> string list" where
  "split_on sep cur [] = [cur]"
| "split_on sep cur (c # cs) =
     (if c = sep then cur # split_on sep [] cs else split_on sep (cur @ [c]) cs)"


section \<open>HASP flux-scaling notebook: the co-add product name\<close>

text \<open>
  The query cell and the file list of the notebook:
  \<^verbatim>\<open>
  g191_query = Observations.query_criteria(proposal_id=8435, target_name="G191B2B",
                                           dataproduct_type="SPECTRUM")
  coadd = "hst_8435_stis_g191b2b_e140m_o5jy_cspec.fits"
  files = ["o5jy03010_x1d.fits", "o5jy03020_x1d.fits", "o5jy03030_x1d.fits"]
  \<close>
\<close>

definition proposal_id :: nat where
  "proposal_id = 8435"

definition target_name :: string where
  "target_name = ''G191B2B''"

definition coadd :: string where
  "coadd = ''hst_8435_stis_g191b2b_e140m_o5jy_cspec.fits''"

definition files :: "string list" where
  "files = [''o5jy03010_x1d.fits'', ''o5jy03020_x1d.fits'', ''o5jy03030_x1d.fits'']"

text \<open>
  Modelled from the spec: the naming convention of the external co-add tool,
  \<open>hst_<programID>_<instrument>_<target>_<grating>_<obset>_cspec.fits\<close>; the tool that
  produces the name is not part of the repository.
\<close>

definition cspec_name :: "string \<Rightarrow> string \<Rightarrow> string \<Rightarrow> string \<Rightarrow> string \<Rightarrow> string" where
  "cspec_name program instrument target grating obset =
     ''hst_'' @ program @ ''_'' @ instrument @ ''_'' @ target @ ''_'' @ grating @ ''_'' @ obset
       @ ''_cspec.fits''"


section \<open>Sky-matching notebook: the check of the shift file\<close>

text \<open>
  \<^verbatim>\<open>
  # If the alignment is unsuccessful, stop the notebook
  with open('shift_drz.txt', 'r') as shift:
      for line_number, line in enumerate(shift, start=1):
          if "nan" in line:
              raise ValueError(f'nan found in line {line_number} in shift file')
  \<close>
  The file system is a map from a path to the text of the file. A file opened in text mode
  is read with universal newlines: \<open>\r\n\<close> and a lone \<open>\r\<close> arrive as \<open>\n\<close>, and the
  iteration yields the lines with their terminating \<open>\n\<close>, a last unterminated line too.
\<close>

fun universal_newlines :: "string \<Rightarrow> string" where
  "universal_newlines [] = []"
| "universal_newlines (c # cs) =
     (if c = CHR 0x0D then
        (case cs of
           [] \<Rightarrow> [CHR 0x0A]
         | d # ds \<Rightarrow> if d = CHR 0x0A then CHR 0x0A # universal_newlines ds
                     else CHR 0x0A # universal_newlines cs)
      else c # universal_newlines cs)"

fun text_lines :: "string \<Rightarrow> string \<Rightarrow> string list" where
  "text_lines cur [] = (if cur = [] then [] else [cur])"
| "text_lines cur (c # cs) =
     (if c = CHR 0x0A then (cur @ [c]) # text_lines [] cs else text_lines (cur @ [c]) cs)"

definition file_lines :: "string \<Rightarrow> string list" where
  "file_lines txt = text_lines [] (universal_newlines txt)"

definition nan_message :: "nat \<Rightarrow> string" where
  "nan_message line_number = ''nan found in line '' @ str_nat line_number @ '' in shift file''"

text \<open>The \<open>for\<close> loop over \<open>enumerate(shift, start=line_number)\<close>.\<close>

fun nan_scan :: "nat \<Rightarrow> string list \<Rightarrow> pyexc + unit" where
  "nan_scan line_number [] = Inr ()"
| "nan_scan line_number (line # rest) =
     (if sublist ''nan'' line then Inl (Exc ValueError (nan_message line_number))
      else nan_scan (Suc line_number) rest)"

definition nan_check_cell :: "(string \<rightharpoonup> string) \<Rightarrow> pyexc + unit" where
  "nan_check_cell fs =
     (case fs ''shift_drz.txt'' of
        None \<Rightarrow> Inl (Exc FileNotFoundError ''shift_drz.txt'')
      | Some txt \<Rightarrow> nan_scan 1 (file_lines txt))"


section \<open>HASP flux-scaling notebook: the gain in signal-to-noise\<close>

text \<open>
  \<^verbatim>\<open>
  # Remove elements where original SNR = 0
  SNR_scaled_nonzero = SNR_scaled[np.nonzero(SNR)]
  SNR_nonzero = SNR[np.nonzero(SNR)]

  SNR_scaled = SNR_scaled_nonzero / SNR_nonzero

  w_scaled_nonzero = w_scaled[np.nonzero(SNR)]
  \<close>
  The columns of a co-add product are two-dimensional arrays (one row per table row), here
  a list of rows. \<open>np.nonzero\<close> gives the positions of the elements that differ from
  zero, row by row; indexing an array with these positions gives a flat array, and raises
  IndexError when a position lies outside the array. The element type is any type with a
  zero and a division, so that the values an array holds need not be finite numbers.
\<close>

definition np_nonzero :: "'a::zero list list \<Rightarrow> (nat \<times> nat) list" where
  "np_nonzero a =
     concat (map (\<lambda>r. map (\<lambda>c. (r, c)) (filter (\<lambda>c. a ! r ! c \<noteq> 0) [0..<length (a ! r)]))
                 [0..<length a])"

definition in_bounds :: "'a list list \<Rightarrow> nat \<times> nat \<Rightarrow> bool" where
  "in_bounds a rc = (fst rc < length a \<and> snd rc < length (a ! fst rc))"

definition take_at :: "'a list list \<Rightarrow> (nat \<times> nat) list \<Rightarrow> pyexc + 'a list" where
  "take_at a idx =
     (if list_all (in_bounds a) idx then Inr (map (\<lambda>rc. a ! fst rc ! snd rc) idx)
      else Inl (Exc IndexError ''index is out of bounds''))"

definition snr_ratio_cell ::
  "'a::{zero,inverse} list list \<Rightarrow> 'a list list \<Rightarrow> 'a list list \<Rightarrow> pyexc + ('a list \<times> 'a list \<times> 'a list)"
where
  "snr_ratio_cell SNR SNR_scaled w_scaled =
     (case take_at SNR_scaled (np_nonzero SNR) of
        Inl e \<Rightarrow> Inl e
      | Inr SNR_scaled_nonzero \<Rightarrow>
          (case take_at SNR (np_nonzero SNR) of
             Inl e \<Rightarrow> Inl e
           | Inr SNR_nonzero \<Rightarrow>
               (case take_at w_scaled (np_nonzero SNR) of
                  Inl e \<Rightarrow> Inl e
                | Inr w_scaled_nonzero \<Rightarrow>
                    Inr (SNR_nonzero, map2 (/) SNR_scaled_nonzero SNR_nonzero, w_scaled_nonzero))))"


section \<open>HASP flux-scaling notebook: scale factors and rescaled spectra\<close>

text \<open>
  The cells of the notebook that compute the scale factors and write the rescaled spectra:
  \<^verbatim>\<open>
  hdul_010 = fits.open(f"{stis_data_dir}/o5jy03010_x1d.fits")
  flux_010 = hdul_010[1].data["FLUX"]
  ... (the same for 020 and 030)
  med_spec_010 = np.median(flux_010)
  med_spec_020 = np.median(flux_020)
  med_spec_030 = np.median(flux_030)

  scale_factor = [1.0,
                  med_spec_010 / med_spec_020,
                  med_spec_010 / med_spec_030]

  for i, filename in enumerate(files):
      g191_hdul = fits.open(f"{stis_data_dir}/{filename}")
      g191_data = g191_hdul[1].data
      flux = g191_data["FLUX"]
      wavelength = g191_data["WAVELENGTH"]
      g191_data["FLUX"] = flux * scale_factor[i]
      g191_hdul.writeto(f"{stis_scaled_data_dir}/{filename}", overwrite=True)
      ...
      g191_hdul.close()
  \<close>
  Arithmetic is exact: a floating-point value is \<open>Some q\<close> for a finite value \<open>q\<close>, taken
  as a rational number, and \<open>None\<close> for a value that is not a finite number (a nan, and the
  inf or nan that numpy gives for a division by zero, with a warning and no exception).
  \<open>None\<close> absorbs in products and quotients. \<open>np.median\<close> flattens the array, and gives
  nan on an empty array and on an array that holds a nan; on finite values it is the
  middle element of the sorted values, or the mean of the two middle elements.
\<close>

type_synonym fl = "rat option"

definition fl_mul :: "fl \<Rightarrow> fl \<Rightarrow> fl" where
  "fl_mul x y = (case x of None \<Rightarrow> None | Some a \<Rightarrow> (case y of None \<Rightarrow> None | Some b \<Rightarrow> Some (a * b)))"

definition fl_div :: "fl \<Rightarrow> fl \<Rightarrow> fl" where
  "fl_div x y =
     (case x of
        None \<Rightarrow> None
      | Some a \<Rightarrow> (case y of None \<Rightarrow> None | Some b \<Rightarrow> if b = 0 then None else Some (a / b)))"

definition np_median :: "fl list list \<Rightarrow> fl" where
  "np_median a =
     (let xs = concat a in
      if xs = [] \<or> None \<in> set xs then None
      else
        (let ys = sort (map the xs); n = length ys in
         if odd n then Some (ys ! (n div 2))
         else Some ((ys ! (n div 2 - 1) + ys ! (n div 2)) / 2)))"

text \<open>
  The first extension of an x1d file: the two columns the cells use (two-dimensional, one
  row per spectral order); the record's extension stands for the rest of the file. The data
  directories are \<open>Path("./stis_data/")\<close> and \<open>Path("./stis_scaled_data/")\<close>, which
  format as \<open>stis_data\<close> and \<open>stis_scaled_data\<close>; the directory tree is a map from a
  path to the file there, and \<open>fits.open\<close> of a missing path raises FileNotFoundError.
\<close>

record x1d =
  WAVELENGTH :: "fl list list"
  FLUX :: "fl list list"

type_synonym 'm fits_dir = "string \<rightharpoonup> 'm x1d_scheme"

definition stis_data_dir :: string where
  "stis_data_dir = ''stis_data''"

definition stis_scaled_data_dir :: string where
  "stis_scaled_data_dir = ''stis_scaled_data''"

definition fits_open :: "'m fits_dir \<Rightarrow> string \<Rightarrow> pyexc + 'm x1d_scheme" where
  "fits_open fs path = (case fs path of None \<Rightarrow> Inl (Exc FileNotFoundError path) | Some hdul \<Rightarrow> Inr hdul)"

definition median_cell :: "'m fits_dir \<Rightarrow> pyexc + (fl \<times> fl \<times> fl)" where
  "median_cell fs =
     (case fits_open fs (stis_data_dir @ ''/o5jy03010_x1d.fits'') of
        Inl e \<Rightarrow> Inl e
      | Inr hdul_010 \<Rightarrow>
     (case fits_open fs (stis_data_dir @ ''/o5jy03020_x1d.fits'') of
        Inl e \<Rightarrow> Inl e
      | Inr hdul_020 \<Rightarrow>
     (case fits_open fs (stis_data_dir @ ''/o5jy03030_x1d.fits'') of
        Inl e \<Rightarrow> Inl e
      | Inr hdul_030 \<Rightarrow>
          Inr (np_median (FLUX hdul_010), np_median (FLUX hdul_020), np_median (FLUX hdul_030)))))"

definition scale_factor :: "fl \<Rightarrow> fl \<Rightarrow> fl \<Rightarrow> fl list" where
  "scale_factor med_spec_010 med_spec_020 med_spec_030 =
     [Some 1, fl_div med_spec_010 med_spec_020, fl_div med_spec_010 med_spec_030]"

definition scale_flux :: "fl list list \<Rightarrow> fl \<Rightarrow> fl list list" where
  "scale_flux flux s = map (map (\<lambda>x. fl_mul x s)) flux"

definition enumerate_list :: "'a list \<Rightarrow> (nat \<times> 'a) list" where
  "enumerate_list xs = zip [0..<length xs] xs"

fun rescale_loop :: "fl list \<Rightarrow> (nat \<times> string) list \<Rightarrow> 'm fits_dir \<Rightarrow> pyexc + 'm fits_dir" where
  "rescale_loop sf [] fs = Inr fs"
| "rescale_loop sf ((i, filename) # rest) fs =
     (case fits_open fs (stis_data_dir @ ''/'' @ filename) of
        Inl e \<Rightarrow> Inl e
      | Inr g191_hdul \<Rightarrow>
          if i < length sf then
            rescale_loop sf rest
              (fs(stis_scaled_data_dir @ ''/'' @ filename
                    \<mapsto> g191_hdul\<lparr>FLUX := scale_flux (FLUX g191_hdul) (sf ! i)\<rparr>))
          else Inl (Exc IndexError ''list index out of range''))"

definition rescale_cells :: "'m fits_dir \<Rightarrow> pyexc + 'm fits_dir" where
  "rescale_cells fs =
     (case median_cell fs of
        Inl e \<Rightarrow> Inl e
      | Inr (med_spec_010, med_spec_020, med_spec_030) \<Rightarrow>
          rescale_loop (scale_factor med_spec_010 med_spec_020 med_spec_030) (enumerate_list files) fs)"


section \<open>Synphot notebooks: the guarded extraction of the reference atlas\<close>

text \<open>
  The functions of Python's \<open>posixpath\<close> that the cell calls, after the library's
  source: \<open>os.path.join\<close> of two parts, \<open>os.path.isabs\<close>, \<open>os.path.normpath\<close> (which
  splits at the slashes, drops empty and \<open>.\<close> components and resolves \<open>..\<close> against the
  component before it, keeping one or exactly two leading slashes) and \<open>os.path.abspath\<close>
  (which joins a relative path to the current directory and normalises).
\<close>

definition path_join :: "string \<Rightarrow> string \<Rightarrow> string" where
  "path_join a b =
     (if prefix ''/'' b then b
      else if a = [] \<or> suffix ''/'' a then a @ b
      else a @ ''/'' @ b)"

definition isabs :: "string \<Rightarrow> bool" where
  "isabs s = prefix ''/'' s"

fun sep_join :: "string list \<Rightarrow> string" where
  "sep_join [] = []"
| "sep_join [c] = c"
| "sep_join (c # cs) = c @ ''/'' @ sep_join cs"

fun norm_comps :: "nat \<Rightarrow> string list \<Rightarrow> string list \<Rightarrow> string list" where
  "norm_comps initial_slashes new_comps [] = new_comps"
| "norm_comps initial_slashes new_comps (cmp # comps) =
     (if cmp = [] \<or> cmp = ''.'' then norm_comps initial_slashes new_comps comps
      else if cmp \<noteq> ''..'' \<or> (initial_slashes = 0 \<and> new_comps = [])
                \<or> (new_comps \<noteq> [] \<and> last new_comps = ''..'')
        then norm_comps initial_slashes (new_comps @ [cmp]) comps
      else if new_comps \<noteq> [] then norm_comps initial_slashes (butlast new_comps) comps
      else norm_comps initial_slashes new_comps comps)"

definition normpath :: "string \<Rightarrow> string" where
  "normpath path =
     (if path = [] then ''.''
      else
        (let initial_slashes =
               (if prefix ''/'' path then
                  (if prefix ''//'' path \<and> \<not> prefix ''///'' path then 2 else 1)
                else 0);
             path' = replicate initial_slashes (CHR ''/'')
                       @ sep_join (norm_comps initial_slashes [] (split_on (CHR ''/'') [] path))
         in if path' = [] then ''.'' else path'))"

definition abspath :: "string \<Rightarrow> string \<Rightarrow> string" where
  "abspath cwd path = normpath (if isabs path then path else path_join cwd path)"

text \<open>
  The cell, the same in both notebooks:
  \<^verbatim>\<open>
  tar_archive = 'hlsp_reference-atlases_hst_multi_everything_multi_v11_sed.tar'
  extract_to = 'hlsp_reference-atlases_hst_multi_everything_multi_v11_sed'
  abs_extract_to = os.path.abspath(extract_to)

  with tarfile.open(tar_archive, 'r') as tar:
      for member in tar.getmembers():
          member_path = os.path.abspath(os.path.join(abs_extract_to, member.name))
          if member_path.startswith(abs_extract_to):
              tar.extract(member, path=extract_to)
          else:
              print(f"Skipped {member.name} due to potential security risk")
  \<close>
  The input is the current directory \<open>cwd\<close> of the kernel and the names of the members
  of the archive. \<open>tar.extract(member, path)\<close> of the Python library (versions 3.11 and
  3.12 of the notebooks, without an extraction filter) writes the member at
  \<open>os.path.join(path, member.name)\<close>; \<open>Extract\<close> carries the absolute place of that
  file, \<open>Skipped\<close> the message printed.
\<close>

definition extract_to :: string where
  "extract_to = ''hlsp_reference-atlases_hst_multi_everything_multi_v11_sed''"

definition abs_extract_to :: "string \<Rightarrow> string" where
  "abs_extract_to cwd = abspath cwd extract_to"

definition member_path :: "string \<Rightarrow> string \<Rightarrow> string" where
  "member_path cwd name = abspath cwd (path_join (abs_extract_to cwd) name)"

datatype tar_action = Extract string | Skipped string

definition guard_member :: "string \<Rightarrow> string \<Rightarrow> tar_action" where
  "guard_member cwd name =
     (if prefix (abs_extract_to cwd) (member_path cwd name)
      then Extract (abspath cwd (path_join extract_to name))
      else Skipped (''Skipped '' @ name @ '' due to potential security risk''))"

definition extraction_cell :: "string \<Rightarrow> string list \<Rightarrow> tar_action list" where
  "extraction_cell cwd names = map (guard_member cwd) names"

text \<open>A normalised absolute path \<open>p\<close> lies in the directory \<open>d\<close>: it is \<open>d\<close> or below it.\<close>

definition inside_dir :: "string \<Rightarrow> string \<Rightarrow> bool" where
  "inside_dir d p = (p = d \<or> prefix (d @ ''/'') p)"


section \<open>HASP flux-scaling notebook: the clean-up of the download directory\<close>

text \<open>
  \<^verbatim>\<open>
  try:
      # The path to all obs_id folders
      mast_path = f"{stis_data_dir}/mastDownload/HST/"

      # Check if mastDownload exists
      if not os.path.exists(mast_path):
          print(f"Directory {mast_path} doesn't exist.")

      # Getting a list of all obs_id folders. Each folder contains the FITS files
      obs_id_dirs = os.listdir(mast_path)

      # Iterating through sub-folders to change the path of each FITS file
      for obs_id in obs_id_dirs:
          obs_id_path = os.path.join(mast_path, obs_id)
          stis_files = glob.glob(obs_id_path + "/*fits")
          for file in stis_files:
              file_path = Path(file)
              new_path = stis_data_dir / file_path.name
              shutil.move(file, new_path)

      # Now we can remove the mastDownload directory
      if os.path.exists(mast_path):
          shutil.rmtree(f"{stis_data_dir}/mastDownload/")

  except Exception as e:
      print(f"An error occurred: {e}")
  \<close>
  The operating system is a parameter of the cell: the five library calls, over any type
  \<open>'fs\<close> of directory trees. \<open>os.path.exists\<close> and \<open>glob.glob\<close> do not raise;
  \<open>os.listdir\<close> returns the names or raises; \<open>shutil.move\<close> and \<open>shutil.rmtree\<close> give
  the tree they leave behind and the exception they raised, if any. The cell gives the
  tree it leaves, the lines it printed and the exception that escapes it, if any.
\<close>

record 'fs os_api =
  path_exists :: "'fs \<Rightarrow> string \<Rightarrow> bool"
  os_listdir :: "'fs \<Rightarrow> string \<Rightarrow> pyexc + string list"
  glob_glob :: "'fs \<Rightarrow> string \<Rightarrow> string list"
  shutil_move :: "'fs \<Rightarrow> string \<Rightarrow> string \<Rightarrow> 'fs \<times> pyexc option"
  shutil_rmtree :: "'fs \<Rightarrow> string \<Rightarrow> 'fs \<times> pyexc option"

text \<open>
  \<open>Path(file).name\<close> is the last component of the path (empty and \<open>.\<close> components do
  not count), and \<open>stis_data_dir / name\<close> appends it to the directory.
\<close>

definition path_name :: "string \<Rightarrow> string" where
  "path_name p =
     (case filter (\<lambda>c. c \<noteq> [] \<and> c \<noteq> ''.'') (split_on (CHR ''/'') [] p) of
        [] \<Rightarrow> []
      | c # cs \<Rightarrow> last (c # cs))"

definition path_div :: "string \<Rightarrow> string \<Rightarrow> string" where
  "path_div d n = (if n = [] then d else d @ ''/'' @ n)"

fun move_loop :: "'fs os_api \<Rightarrow> string list \<Rightarrow> 'fs \<Rightarrow> 'fs \<times> pyexc option" where
  "move_loop api [] fs = (fs, None)"
| "move_loop api (file # stis_files) fs =
     (case shutil_move api fs file (path_div stis_data_dir (path_name file)) of
        (fs', Some e) \<Rightarrow> (fs', Some e)
      | (fs', None) \<Rightarrow> move_loop api stis_files fs')"

fun obs_loop :: "'fs os_api \<Rightarrow> string \<Rightarrow> string list \<Rightarrow> 'fs \<Rightarrow> 'fs \<times> pyexc option" where
  "obs_loop api mast_path [] fs = (fs, None)"
| "obs_loop api mast_path (obs_id # obs_id_dirs) fs =
     (case move_loop api (glob_glob api fs (path_join mast_path obs_id @ ''/*fits'')) fs of
        (fs', Some e) \<Rightarrow> (fs', Some e)
      | (fs', None) \<Rightarrow> obs_loop api mast_path obs_id_dirs fs')"

definition cleanup_body :: "'fs os_api \<Rightarrow> 'fs \<Rightarrow> 'fs \<times> string list \<times> pyexc option" where
  "cleanup_body api fs =
     (let mast_path = stis_data_dir @ ''/mastDownload/HST/'';
          out = (if \<not> path_exists api fs mast_path
                 then [''Directory '' @ mast_path @ '' doesn't exist.''] else [])
      in case os_listdir api fs mast_path of
           Inl e \<Rightarrow> (fs, out, Some e)
         | Inr obs_id_dirs \<Rightarrow>
             (case obs_loop api mast_path obs_id_dirs fs of
                (fs', Some e) \<Rightarrow> (fs', out, Some e)
              | (fs', None) \<Rightarrow>
                  if path_exists api fs' mast_path then
                    (case shutil_rmtree api fs' (stis_data_dir @ ''/mastDownload/'') of
                       (fs'', r) \<Rightarrow> (fs'', out, r))
                  else (fs', out, None)))"

definition cleanup_cell :: "'fs os_api \<Rightarrow> 'fs \<Rightarrow> 'fs \<times> string list \<times> pyexc option" where
  "cleanup_cell api fs =
     (case cleanup_body api fs of
        (fs', out, None) \<Rightarrow> (fs', out, None)
      | (fs', out, Some e) \<Rightarrow>
          if is_Exception (exc_cls e) then (fs', out @ [''An error occurred: '' @ exc_msg e], None)
          else (fs', out, Some e))"

text \<open>
  The calls of the operating system raise instances of \<open>Exception\<close> only (as OSError and
  its subclasses and shutil.Error are), never a bare BaseException.
\<close>

definition raises_only_Exception :: "'fs os_api \<Rightarrow> bool" where
  "raises_only_Exception api \<longleftrightarrow>
     (\<forall>fs p e. os_listdir api fs p = Inl e \<longrightarrow> is_Exception (exc_cls e))
   \<and> (\<forall>fs s d fs' e. shutil_move api fs s d = (fs', Some e) \<longrightarrow> is_Exception (exc_cls e))
   \<and> (\<forall>fs p fs' e. shutil_rmtree api fs p = (fs', Some e) \<longrightarrow> is_Exception (exc_cls e))"

text \<open>
  A small operating system to run the cell on: a tree is the list of the paths of its
  files, a directory exists when a file lies below it, a move renames one path, and a call
  on a missing path raises FileNotFoundError. The pattern of \<open>glob_glob\<close> ends in
  \<open>*fits\<close>, as the cell's does.
\<close>

definition no_such_file :: "string \<Rightarrow> pyexc" where
  "no_such_file p = Exc FileNotFoundError (''[Errno 2] No such file or directory: '' @ [CHR 0x27] @ p @ [CHR 0x27])"

definition below :: "string \<Rightarrow> string \<Rightarrow> bool" where
  "below d f = (prefix d f \<and> (suffix ''/'' d \<or> prefix (d @ ''/'') f \<or> f = d))"

definition tree_api :: "string list os_api" where
  "tree_api =
     \<lparr> path_exists = (\<lambda>fs p. list_ex (below p) fs),
       os_listdir = (\<lambda>fs p.
         if list_ex (below p) fs
         then Inr (remdups (map (\<lambda>f. takeWhile (\<lambda>c. c \<noteq> CHR ''/'') (drop (length p) f))
                                (filter (below p) fs)))
         else Inl (no_such_file p)),
       glob_glob = (\<lambda>fs pattern.
         filter (\<lambda>f. prefix (take (length pattern - 5) pattern) f
                     \<and> CHR ''/'' \<notin> set (drop (length pattern - 5) f)
                     \<and> suffix ''fits'' (drop (length pattern - 5) f)) fs),
       shutil_move = (\<lambda>fs src dst.
         if src \<in> set fs then (dst # removeAll dst (removeAll src fs), None)
         else (fs, Some (no_such_file src))),
       shutil_rmtree = (\<lambda>fs p.
         if list_ex (below p) fs then (filter (\<lambda>f. \<not> below p f) fs, None)
         else (fs, Some (no_such_file p))) \<rparr>"


section \<open>The notebooks as sequences of statements\<close>

text \<open>
  For the claims about all the code of the repository, each notebook is the sequence, in
  the order of execution, of the statements of its code cells that reach outside the
  kernel: queries and downloads of an archive, shell lines, calls of the external
  processing tools of the libraries, operations on directories, accesses to FITS files
  and to their keywords and columns, plots, and the files written. Assignments,
  arithmetic, prints and the display of a value are left out. A loop over a list that the
  code fixes is unrolled over that list; a loop over a list found at run time (the result
  of a glob or of a download) is unrolled over a parameter of the notebook, gathered in
  the record \<open>run\<close>. The sequence is that of the run in which no call raises.
\<close>

datatype fs_kind = Mkdir | Move | Rename | Rmdir | Rmtree

datatype stmt =
    Archive_query string
  | Archive_download string
  | Shell string
  | Lib_tool string "(string \<times> string) list"
  | Fs_op fs_kind string
  | Fits_load string
  | Fits_update string
  | Key_read string string
  | Key_write string string
  | Fits_setval string string
  | Fits_writeto string
  | Table_write string string
  | Tar_extract string string
  | File_read string
  | Plot
  | Savefig string
  | Setenv string

text \<open>
  \<open>Archive_query f\<close>: a call \<open>f\<close> that asks a remote archive (MAST, Gaia);
  \<open>Archive_download d\<close>: \<open>Observations.download_products\<close> into the directory \<open>d\<close>;
  \<open>Shell c\<close>: the line \<open>!c\<close>;
  \<open>Lib_tool f args\<close>: a call of the library tool \<open>f\<close>, with those of its keyword
  arguments that name files or switch the update of headers;
  \<open>Fits_load p\<close>: \<open>fits.open\<close>, \<open>fits.getdata\<close>, \<open>fits.getheader\<close> or a library reader on
  the FITS file \<open>p\<close>; \<open>Fits_update p\<close>: \<open>fits.open(p, mode='update')\<close>;
  \<open>Key_read p k\<close>: a lookup of the keyword or column \<open>k\<close> of \<open>p\<close> (\<open>fits.getval\<close>,
  \<open>header[k]\<close>, \<open>header.get(k)\<close>, \<open>data[k]\<close>);
  \<open>Key_write p k\<close>: the assignment \<open>data[k] = ...\<close> to the column \<open>k\<close> of the table read from
  \<open>p\<close>, in memory; \<open>Fits_setval p k\<close>: \<open>fits.setval(p, k, value=...)\<close>, which sets the keyword
  \<open>k\<close> in the file \<open>p\<close> on disk;
  \<open>Fits_writeto p\<close>: \<open>hdul.writeto(p)\<close>; \<open>Table_write p format\<close>: \<open>table.write(p, format=...)\<close>;
  \<open>Tar_extract archive dir\<close>: the guarded loop of \<open>tar.extract\<close> over the members;
  \<open>File_read p\<close>: \<open>open(p, 'r')\<close>, \<open>Table.read\<close>, \<open>ascii.read\<close> or \<open>mpimg.imread\<close> of a file
  that is not a FITS file;
  \<open>Plot\<close>: a drawing call (\<open>scatter\<close>, \<open>imshow\<close>, \<open>plot\<close>, \<open>show\<close>, or a plotting helper);
  \<open>Savefig p\<close>: \<open>plt.savefig(p)\<close>; \<open>Setenv v\<close>: an assignment to \<open>os.environ[v]\<close>.
\<close>

record run =
  stis_files :: "string list"
  science_files :: "string list"
  fl_files :: "string list"
  dr_files :: "string list"
  drz_files :: "string list"
  match_files :: "string list"
  local_paths :: "string \<Rightarrow> string list"
  fltfiles :: "string list"
  jif_numexts :: nat
  jit_numexts :: nat
  sources :: nat
  dl_table :: "string list"
  raw_files :: "string list"

definition stis_products_dir :: string where
  "stis_products_dir = ''stis_products''"

definition stis_scaled_products_dir :: string where
  "stis_scaled_products_dir = ''stis_scaled_products''"

subsection \<open>Scaling flux with the HASP script\<close>

definition flux_scaling_nb :: "run \<Rightarrow> stmt list" where
  "flux_scaling_nb r =
     [Fs_op Mkdir stis_data_dir, Fs_op Mkdir stis_products_dir,
      Fs_op Mkdir stis_scaled_data_dir, Fs_op Mkdir stis_scaled_products_dir,
      Archive_query ''Observations.query_criteria'',
      Archive_query ''Observations.get_product_list'',
      Archive_download stis_data_dir]
     @ map (Fs_op Move) (stis_files r)
     @ [Fs_op Rmtree (stis_data_dir @ ''/mastDownload/''),
        Shell ''swrapper -i ./stis_data -o ./stis_products'',
        Fits_load (stis_products_dir @ ''/'' @ coadd),
        Key_read (stis_products_dir @ ''/'' @ coadd) ''WAVELENGTH'',
        Key_read (stis_products_dir @ ''/'' @ coadd) ''FLUX'']
     @ concat (map (\<lambda>filename.
         [Fits_load (stis_data_dir @ ''/'' @ filename),
          Key_read (stis_data_dir @ ''/'' @ filename) ''WAVELENGTH'',
          Key_read (stis_data_dir @ ''/'' @ filename) ''FLUX'',
          Plot]) files)
     @ [Plot, Savefig (stis_products_dir @ ''/flux_vs_wavelength.png''), Plot,
        Key_read (stis_products_dir @ ''/'' @ coadd) ''SNR'',
        Plot, Savefig (stis_products_dir @ ''/snr_vs_wavelength_prescaled.png''), Plot,
        Fits_load (stis_data_dir @ ''/o5jy03010_x1d.fits''),
        Key_read (stis_data_dir @ ''/o5jy03010_x1d.fits'') ''FLUX'',
        Fits_load (stis_data_dir @ ''/o5jy03020_x1d.fits''),
        Key_read (stis_data_dir @ ''/o5jy03020_x1d.fits'') ''FLUX'',
        Fits_load (stis_data_dir @ ''/o5jy03030_x1d.fits''),
        Key_read (stis_data_dir @ ''/o5jy03030_x1d.fits'') ''FLUX'']
     @ concat (map (\<lambda>filename.
         [Fits_load (stis_data_dir @ ''/'' @ filename),
          Key_read (stis_data_dir @ ''/'' @ filename) ''FLUX'',
          Key_read (stis_data_dir @ ''/'' @ filename) ''WAVELENGTH'',
          Key_write (stis_data_dir @ ''/'' @ filename) ''FLUX'',
          Fits_writeto (stis_scaled_data_dir @ ''/'' @ filename),
          Plot]) files)
     @ [Savefig ''./stis_scaled_data/scaled_flux_vs_wavelength.png'', Plot,
        Shell ''swrapper -i ./stis_scaled_data -o ./stis_scaled_products'',
        Fits_load (stis_scaled_products_dir @ ''/'' @ coadd),
        Key_read (stis_scaled_products_dir @ ''/'' @ coadd) ''WAVELENGTH'',
        Key_read (stis_scaled_products_dir @ ''/'' @ coadd) ''FLUX'',
        Key_read (stis_scaled_products_dir @ ''/'' @ coadd) ''SNR'',
        Plot, Savefig (stis_scaled_products_dir @ ''/scaled_rel_snr_vs_wavelength.png''), Plot]"

subsection \<open>Sky matching for HST mosaics\<close>

definition keywords_ext0 :: "string list" where
  "keywords_ext0 = [''ROOTNAME'', ''ASN_ID'', ''TARGNAME'', ''DETECTOR'', ''FILTER'', ''EXPTIME'',
                    ''RA_TARG'', ''DEC_TARG'', ''POSTARG1'', ''POSTARG2'', ''DATE-OBS'']"

definition keywords_ext1 :: "string list" where
  "keywords_ext1 = [''ORIENTAT'']"

definition ext_0_kws :: "string list" where
  "ext_0_kws = [''DETECTOR'']"

definition ext_1_kws :: "string list" where
  "ext_1_kws = [''WCSNAME'', ''NMATCHES'', ''RMS_RA'', ''RMS_DEC'']"

definition astrodrizzle :: "string \<Rightarrow> string \<Rightarrow> stmt" where
  "astrodrizzle output sky =
     Lib_tool ''astrodrizzle.AstroDrizzle''
       [(''input'', ''*flt.fits''), (''output'', output), (''skymethod'', sky)]"

definition sky_matching_nb :: "run \<Rightarrow> stmt list" where
  "sky_matching_nb r =
     [Archive_query ''Observations.query_criteria'',
      Archive_query ''Observations.get_product_list'',
      Archive_download ''./science'']
     @ map (Fs_op Rename) (science_files r)
     @ [Fs_op Rmtree ''science/'']
     @ concat (map (\<lambda>file. map (Key_read file) (keywords_ext0 @ keywords_ext1)) (fl_files r))
     @ concat (map (\<lambda>f.
         [Fits_load f, Fits_load f]
         @ map (Key_read f) (ext_0_kws @ ext_1_kws)
         @ [Key_read f ''RMS_RA'', Key_read f ''DETECTOR'',
            Key_read f ''RMS_DEC'', Key_read f ''DETECTOR'']) (dr_files r))
     @ [Archive_query ''Gaia.query_object_async'',
        Table_write ''gaia_no_pm.cat'' ''ascii.commented_header'',
        Lib_tool ''create_astrometric_catalog'' [(''inputs'', ''*flt.fits'')],
        Table_write ''gaia_pm.cat'' ''ascii.no_header'',
        Lib_tool ''tweakreg.TweakReg''
          [(''shiftfile'', ''True''), (''outshifts'', ''shift_drz.txt''),
           (''refcat'', ''gaia_pm.cat''), (''updatehdr'', ''False'')],
        File_read ''shift_drz.txt'',
        File_read ''shift_drz.txt'']
     @ map File_read (match_files r)
     @ [Fits_load ''ibxl52030_drz.fits'', Fits_load ''ibxl53030_drz.fits'', Plot, Plot,
        File_read ''ibxl52030_drz_catalog_fit.match'',
        File_read ''ibxl53030_drz_catalog_fit.match'',
        Plot, Plot,
        File_read ''residuals_ibxl52030_drz.png'', File_read ''residuals_ibxl53030_drz.png'',
        Plot, Plot, Plot,
        Lib_tool ''tweakreg.TweakReg''
          [(''shiftfile'', ''False''), (''refcat'', ''gaia_pm.cat''), (''updatehdr'', ''True'')]]
     @ concat (map (\<lambda>f.
         [Fits_load f, Key_read f ''WCSNAME'',
          Lib_tool ''tweakback.apply_tweak'' [(''drz_file'', f @ ''[sci,1]'')]]) (drz_files r))
     @ [astrodrizzle ''f160w_localmin'' ''localmin'',
        astrodrizzle ''f160w_match'' ''match'',
        astrodrizzle ''f160w_globalmin_match'' ''globalmin+match'',
        astrodrizzle ''f160w_globalmin'' ''globalmin'',
        Fits_load ''f160w_globalmin_drz_sci.fits'',
        Key_read ''f160w_globalmin_drz_sci.fits'' ''rootname'',
        Fits_load ''f160w_localmin_drz_sci.fits'',
        Key_read ''f160w_localmin_drz_sci.fits'' ''mdrizsky'',
        Fits_load ''f160w_globalmin_drz_sci.fits'',
        Key_read ''f160w_globalmin_drz_sci.fits'' ''mdrizsky'',
        Fits_load ''f160w_globalmin_match_drz_sci.fits'',
        Key_read ''f160w_globalmin_match_drz_sci.fits'' ''mdrizsky'',
        Fits_load ''f160w_match_drz_sci.fits'',
        Key_read ''f160w_match_drz_sci.fits'' ''mdrizsky'',
        Plot, Plot, Plot, Plot, Plot,
        Fits_load ''f160w_match_drz_sci.fits'', Plot, Plot,
        Fits_load ''f160w_match_drz_wht.fits'', Plot, Plot]"

subsection \<open>The two synphot notebooks\<close>

definition tar_archive :: string where
  "tar_archive = ''hlsp_reference-atlases_hst_multi_everything_multi_v11_sed.tar''"

definition reference_atlas_setup :: "stmt list" where
  "reference_atlas_setup =
     [Lib_tool ''syn.SourceSpectrum.from_vega'' [],
      Shell (''curl -O https://archive.stsci.edu/hlsps/reference-atlases/'' @ tar_archive),
      Tar_extract tar_archive extract_to,
      Setenv ''PYSYN_CDBS'']"

definition band :: "string \<Rightarrow> stmt" where
  "band obsmode = Lib_tool ''stsyn.band'' [(''obsmode'', obsmode)]"

definition observation :: stmt where
  "observation = Lib_tool ''Observation'' []"

definition filter_pairs :: "(string \<times> string) list" where
  "filter_pairs = [(''johnson, v'', ''f555w''), (''cousins, i'', ''f814w'')]"

definition chips :: "bool list" where
  "chips = [True, True]"

definition filter_transformations_nb :: "stmt list" where
  "filter_transformations_nb =
     reference_atlas_setup
     @ concat (map (\<lambda>(comparison_filter, uvis_filter).
         concat (map (\<lambda>(i, toggle).
           if \<not> toggle then []
           else [band comparison_filter,
                 band (''wfc3, '' @ (''UVIS'' @ str_nat (i + 1)) @ '', '' @ uvis_filter),
                 observation, observation]) (enumerate_list chips))) filter_pairs)
     @ concat (map (\<lambda>(f1, f2). [band f1, band (''wfc3, uvis1,'' @ f2), Plot, Plot, Plot])
         filter_pairs)"

definition synthetic_photometry_nb :: "stmt list" where
  "synthetic_photometry_nb =
     reference_atlas_setup
     @ [band ''wfc3, uvis1, f814w, aper#6.0, mjd#55008'',
        observation,
        band ''wfc3, uvis1, f814w, aper#0.4, mjd#55008'',
        band ''johnson, v'',
        band ''wfc3, ir, f110w'',
        observation,
        band ''wfc3, uvis1, f814w'',
        band ''cousins, i'',
        observation, observation,
        band ''wfc3, uvis1, f225w'',
        band ''wfc3, uvis2, f225w'',
        Fits_load ''example_spectra/gd153_stiswfcnic_003.fits'',
        Fits_load ''example_spectra/p330e_stiswfcnic_003.fits'',
        observation, observation, observation, observation,
        Plot, Plot, Plot, Plot, Plot]"

subsection \<open>Exception report checklist\<close>

definition exp_ids :: "string list" where
  "exp_ids = [''IEPP01010'']"

definition file_types :: "string list" where
  "file_types = [''FLT'', ''JIF'', ''JIT'']"

text \<open>\<open>os.path.basename\<close>: what follows the last slash.\<close>

definition basename :: "string \<Rightarrow> string" where
  "basename p = last (split_on (CHR ''/'') [] p)"

definition jif_keywords :: "string list" where
  "jif_keywords = [''EXPNAME*'', ''GUIDEACT*'', ''GSACQ*'', ''ACTGSSEP*'',
                   ''GSSEPRMS*'', '' NLOSSES*'', ''CRVAL1*'', ''CRVAL2*'',
                   ''V2_RMS*'', ''V3_RMS*'', ''GSFAIL*'']"

definition exception_report_nb :: "run \<Rightarrow> stmt list" where
  "exception_report_nb r =
     concat (map (\<lambda>obsid.
         [Fs_op Mkdir (map to_lower obsid)]
         @ concat (map (\<lambda>file_type.
             [Archive_query ''Observations.query_criteria'',
              Archive_query ''Observations.get_product_list'',
              Archive_download ''.'']
             @ concat (map (\<lambda>file.
                 [Fs_op Rename file,
                  Fs_op Rmdir (''mastDownload/HST/'' @ take 9 (basename file))])
                 (local_paths r file_type))) file_types)
         @ [Fs_op Rmtree ''mastDownload'']) exp_ids)
     @ concat (map (\<lambda>f. [Fits_load f, Plot]) (fltfiles r))
     @ [Fits_load ''iepp01010/iepp01010_jif.fits'',
        Fits_load ''iepp01010/iepp01010_jif.fits'',
        Key_read ''iepp01010/iepp01010_jif.fits'' ''T_GSFAIL*'',
        Fits_load ''iepp01010/iepp01010_jif.fits'',
        Key_read ''iepp01010/iepp01010_jif.fits'' ''NEXTEND'']
     @ concat (map (\<lambda>ext.
         Fits_load ''iepp01010/iepp01010_jif.fits''
         # map (Key_read ''iepp01010/iepp01010_jif.fits'') jif_keywords)
         [1..<jif_numexts r + 1])
     @ [Fits_load ''iepp01010/iepp01010_jit.fits'',
        Key_read ''iepp01010/iepp01010_jit.fits'' ''NEXTEND'']
     @ concat (map (\<lambda>ext.
         [Fits_load ''iepp01010/iepp01010_jit.fits'',
          Fits_load ''iepp01010/iepp01010_jit.fits'',
          Key_read ''iepp01010/iepp01010_jit.fits'' ''EXPNAME'',
          Key_read ''iepp01010/iepp01010_jit.fits'' ''Seconds'',
          Key_read ''iepp01010/iepp01010_jit.fits'' ''SI_V2_AVG'', Plot,
          Key_read ''iepp01010/iepp01010_jit.fits'' ''Seconds'',
          Key_read ''iepp01010/iepp01010_jit.fits'' ''SI_V3_AVG'', Plot,
          Key_read ''iepp01010/iepp01010_jit.fits'' ''Seconds'',
          Key_read ''iepp01010/iepp01010_jit.fits'' ''SI_V2_RMS'', Plot,
          Key_read ''iepp01010/iepp01010_jit.fits'' ''Seconds'',
          Key_read ''iepp01010/iepp01010_jit.fits'' ''SI_V3_RMS'', Plot])
         [1..<jit_numexts r + 1])
     @ [Fits_load ''iepp01010/iepp01uvq_flt.fits'',
        Fits_load ''iepp01010/iepp01uvq_flt.fits'',
        Lib_tool ''sigma_clipped_stats'' [],
        Lib_tool ''DAOStarFinder'' [],
        Plot, Plot]
     @ concat (replicate (sources r)
         [Plot, Plot, Key_read ''iepp01010/iepp01uvq_flt.fits'' ''filter''])"

subsection \<open>ACS/WFC image reduction\<close>

definition asn_file :: string where
  "asn_file = ''j9l960010_asn.fits''"

definition cte_correct :: bool where
  "cte_correct = False"

definition crds_bestrefs :: "string \<Rightarrow> string" where
  "crds_bestrefs file =
     ''crds bestrefs --files '' @ file @ '' --sync-references=1 --update-bestrefs''"

definition acs_reduction_nb :: "run \<Rightarrow> stmt list" where
  "acs_reduction_nb r =
     [Archive_query ''Observations.query_criteria'',
      Archive_download ''.'']
     @ map (Fs_op Rename) (dl_table r)
     @ [Fs_op Rmtree ''mastDownload'',
        Fits_load asn_file]
     @ map Fits_load (take 1 (raw_files r))
     @ [Shell ''conda list hstcal'',
        Fits_update asn_file,
        Key_read asn_file ''MEMTYPE'']
     @ map (\<lambda>file. Fits_setval file ''PCTECORR'') (raw_files r)
     @ [Setenv ''CRDS_SERVER_URL'', Setenv ''CRDS_SERVER'', Setenv ''CRDS_PATH'', Setenv ''jref'']
     @ map (\<lambda>file. Shell (crds_bestrefs file)) (raw_files r)
     @ [Shell ''calacs.e j9l960010_asn.fits'',
        Fits_load ''j9l960a7q_raw.fits'',
        Fits_load (if cte_correct then ''j9l960a7q_flc.fits'' else ''j9l960a7q_flt.fits''),
        Plot,
        Lib_tool ''updatewcs.updatewcs''
          [(''input'', if cte_correct then ''j9l9*a[9-f]q_flc.fits'' else ''j9l9*a[9-f]q_flt.fits'')]]"

subsection \<open>ACS polarization tools, and the set-up of the HASP environment\<close>

definition acs_polarization_nb :: "stmt list" where
  "acs_polarization_nb =
     [Lib_tool ''polarization_tools.PolarizerTables.from_package_data'' [],
      Lib_tool ''polarization_tools.Polarization'' [],
      Lib_tool ''Polarization.calc_stokes'' [],
      Lib_tool ''Polarization.calc_polarization'' []]"

definition setup_nb :: "stmt list" where
  "setup_nb =
     [Shell ''conda --version'',
      Shell ''conda config --add channels conda-forge'',
      Shell (''yes | conda create --name hasp-env python=3.11 notebook jupyterlab numpy ''
             @ ''astropy astroquery matplotlib''),
      Shell ''conda activate hasp-env'',
      Shell ''pip install ./hasp/.'']"

definition repository :: "run \<Rightarrow> stmt list" where
  "repository r =
     flux_scaling_nb r @ sky_matching_nb r @ filter_transformations_nb
     @ synthetic_photometry_nb @ exception_report_nb r @ acs_reduction_nb r
     @ acs_polarization_nb @ setup_nb"

text \<open>A run of the notebooks with one file in every list found at run time.\<close>

definition sample_run :: run where
  "sample_run =
     \<lparr> stis_files = [''stis_data/mastDownload/HST/o5jy03010/o5jy03010_x1d.fits''],
       science_files = [''./science/mastDownload/HST/ibxl50030/ibxl50030_drz.fits''],
       fl_files = [''ibxl50clq_flt.fits''],
       dr_files = [''ibxl50030_drz.fits''],
       drz_files = [''ibxl50030_drz.fits''],
       match_files = [''ibxl50030_drz_catalog_fit.match''],
       local_paths = (\<lambda>file_type. [''mastDownload/HST/iepp01010/iepp01010_jif.fits'']),
       fltfiles = [''iepp01010/iepp01uvq_flt.fits''],
       jif_numexts = 1,
       jit_numexts = 1,
       sources = 1,
       dl_table = [''mastDownload/HST/j9l960a7q/j9l960a7q_raw.fits''],
       raw_files = [''j9l960a7q_raw.fits''] \<rparr>"

subsection \<open>The command lines of the external tools\<close>

text \<open>
  The words of a shell line, cut at the spaces. Quoting and the expansions of the shell
  are not modelled: the lines of the notebooks use none, and a file name put into a line
  is taken to be made of letters, digits and \<open>_ . - /\<close> only.
\<close>

definition shell_words :: "string \<Rightarrow> string list" where
  "shell_words line = filter (\<lambda>w. w \<noteq> []) (split_on (CHR '' '') [] line)"

definition plain_name :: "string \<Rightarrow> bool" where
  "plain_name f \<longleftrightarrow>
     f \<noteq> [] \<and>
     list_all (\<lambda>c. c \<in> set (''abcdefghijklmnopqrstuvwxyz'' @ ''ABCDEFGHIJKLMNOPQRSTUVWXYZ''
                              @ ''0123456789'' @ ''_.-/'')) f"

text \<open>
  Modelled from the spec: the interfaces of the three external command-line tools,
  \<open>swrapper -i <input_dir> -o <output_dir> [-t threshold] [-s snrmax] [-k]\<close>,
  \<open>calacs.e <asn_file>\<close> and
  \<open>crds bestrefs --files <file> --sync-references=1 --update-bestrefs\<close>. The tools are
  not part of the repository. \<open>swrapper_options\<close> reads the options of a swrapper line and
  gives the input and the output directory it found.
\<close>

fun swrapper_options ::
  "string list \<Rightarrow> string option \<times> string option \<Rightarrow> (string option \<times> string option) option"
where
  "swrapper_options [] dirs = Some dirs"
| "swrapper_options [w] dirs = (if w = ''-k'' then Some dirs else None)"
| "swrapper_options (w # v # ws) (inp, out) =
     (if w = ''-i'' then swrapper_options ws (Some v, out)
      else if w = ''-o'' then swrapper_options ws (inp, Some v)
      else if w = ''-t'' \<or> w = ''-s'' then swrapper_options ws (inp, out)
      else if w = ''-k'' then swrapper_options (v # ws) (inp, out)
      else None)"

definition swrapper_interface :: "string list \<Rightarrow> bool" where
  "swrapper_interface args =
     (case swrapper_options args (None, None) of
        Some (Some input_dir, Some output_dir) \<Rightarrow> True
      | _ \<Rightarrow> False)"

definition calacs_interface :: "string list \<Rightarrow> bool" where
  "calacs_interface args = (case args of [asn] \<Rightarrow> suffix ''_asn.fits'' asn | _ \<Rightarrow> False)"

definition crds_interface :: "string list \<Rightarrow> bool" where
  "crds_interface args =
     (case args of
        [sub, flag, file, sync, update] \<Rightarrow>
          sub = ''bestrefs'' \<and> flag = ''--files'' \<and> sync = ''--sync-references=1''
          \<and> update = ''--update-bestrefs''
      | _ \<Rightarrow> False)"

definition matches_interface :: "string \<Rightarrow> bool" where
  "matches_interface line =
     (case shell_words line of
        [] \<Rightarrow> True
      | prog # args \<Rightarrow>
          if prog = ''swrapper'' then swrapper_interface args
          else if prog = ''calacs.e'' then calacs_interface args
          else if prog = ''crds'' then crds_interface args
          else True)"

fun shell_lines :: "stmt \<Rightarrow> string list" where
  "shell_lines (Shell line) = [line]"
| "shell_lines _ = []"

subsection \<open>The files a statement writes\<close>

datatype file_format =
  FITS | GIF | PNG | ASCII_text | Tar_archive | Tar_member | Reference_file | Software
  | Other_format

text \<open>
  The files a statement leaves on disk, each with the path, the directory or the glob
  pattern by which the notebook names it (for an installation, the command line). A file
  counts when the notebook's code writes it, and also when the notebook has a tool or a
  command write it and either names the file in the call, reads it back afterwards, or
  says in its text that the tool writes it.

  The notebooks' own writes: \<open>hdul.writeto\<close> and \<open>fits.setval\<close> write a FITS file,
  \<open>plt.savefig\<close> an image in the format of the extension of the path, \<open>table.write\<close> with a
  format \<open>ascii.*\<close> a text file, and the extraction loop unpacks the members of the tar
  archive, in whatever format they have, into the directory.

  \<open>Observations.download_products\<close> stores the FITS files of the chosen products under the
  download directory, where the notebooks find them with the pattern \<open>*fits\<close>.
\<close>

text \<open>
  The library tools. \<open>TweakReg\<close> writes the shift file named by \<open>outshifts\<close> when
  \<open>shiftfile=True\<close> (``Read the shift file just created by tweakreg''), the match
  catalogues \<open>*_drz_catalog_fit.match\<close>, which the notebook reads with \<open>ascii.read\<close>, and
  the ``astrometric fit residual PNG plots'' \<open>residuals_*_drz.png\<close>; with \<open>updatehdr=True\<close>
  it updates the header WCS of its input files \<open>*drz.fits\<close>. \<open>tweakback.apply_tweak\<close>
  propagates ``the updated WCS information back to the FLT files''. \<open>AstroDrizzle\<close>
  writes the drizzled products \<open><output>_drz_sci.fits\<close> and \<open><output>_drz_wht.fits\<close>, which
  the notebook loads, and updates MDRIZSKY ``in the headers of the input files''.
  \<open>updatewcs\<close> updates ``the FLT/FLC file WCS header keywords'' of its input files. The other
  library calls of the notebooks return their result in memory.
\<close>

definition lib_tool_writes :: "string \<Rightarrow> (string \<times> string) list \<Rightarrow> (string \<times> file_format) list"
where
  "lib_tool_writes f args =
     (if f = ''tweakreg.TweakReg'' then
        (case (map_of args ''shiftfile'', map_of args ''outshifts'') of
           (Some shiftfile, Some outshifts) \<Rightarrow>
             if shiftfile = ''True'' then [(outshifts, ASCII_text)] else []
         | _ \<Rightarrow> [])
        @ [(''*_drz_catalog_fit.match'', ASCII_text), (''residuals_*_drz.png'', PNG)]
        @ (if map_of args ''updatehdr'' = Some ''True'' then [(''*drz.fits'', FITS)] else [])
      else if f = ''tweakback.apply_tweak'' then [(''*flt.fits'', FITS)]
      else if f = ''astrodrizzle.AstroDrizzle'' then
        (case map_of args ''output'' of
           None \<Rightarrow> []
         | Some output \<Rightarrow> [(output @ ''_drz_sci.fits'', FITS), (output @ ''_drz_wht.fits'', FITS)])
        @ (case (map_of args ''skymethod'', map_of args ''input'') of
             (Some sky, Some input) \<Rightarrow> [(input, FITS)]
           | _ \<Rightarrow> [])
      else if f = ''updatewcs.updatewcs'' then
        (case map_of args ''input'' of None \<Rightarrow> [] | Some input \<Rightarrow> [(input, FITS)])
      else [])"

text \<open>The word that follows the option \<open>opt\<close> in the words of a command line.\<close>

fun option_value :: "string \<Rightarrow> string list \<Rightarrow> string option" where
  "option_value opt (w # v # ws) = (if w = opt then Some v else option_value opt (v # ws))"
| "option_value opt ws = None"

text \<open>
  The shell lines. \<open>swrapper\<close> puts ``the newly created co-added products'', FITS files
  named as \<open>coadd\<close> is, into the directory given with \<open>-o\<close>. \<open>calacs.e\<close> ``will produce
  \<open>*_flt.fits\<close>'' and, with the CTE correction enabled, \<open>*_flc.fits\<close> as well.
  \<open>crds bestrefs\<close> updates the header keywords of the file given with \<open>--files\<close> and, with
  \<open>--sync-references=1\<close>, fetches the reference files into the directory of \<open>CRDS_PATH\<close>,
  \<open>./crds_cache\<close>; the notebook does not say in which format. \<open>curl -O\<close> stores the file
  of the URL under its last component, here ``the \<open>.tar\<close> file downloaded''. \<open>conda config\<close>,
  \<open>conda create\<close> and \<open>pip install\<close> set up the software environment. The other shell lines
  of the notebooks (\<open>conda --version\<close>, \<open>conda list\<close>, \<open>conda activate\<close>) write no file.
\<close>

definition shell_writes :: "string \<Rightarrow> (string \<times> file_format) list" where
  "shell_writes line =
     (case shell_words line of
        [] \<Rightarrow> []
      | prog # args \<Rightarrow>
          if prog = ''swrapper'' then
            (case swrapper_options args (None, None) of
               Some (inp, Some out) \<Rightarrow> [(out, FITS)]
             | _ \<Rightarrow> [])
          else if prog = ''calacs.e'' then
            (''*_flt.fits'', FITS) # (if cte_correct then [(''*_flc.fits'', FITS)] else [])
          else if prog = ''crds'' then
            (case option_value ''--files'' args of
               None \<Rightarrow> []
             | Some file \<Rightarrow> [(file, FITS)])
            @ (if ''--sync-references=1'' \<in> set args
               then [(''./crds_cache'', Reference_file)] else [])
          else if prog = ''curl'' then
            (case option_value ''-O'' (prog # args) of
               None \<Rightarrow> []
             | Some url \<Rightarrow>
                 [(basename url, if suffix ''.tar'' url then Tar_archive else Other_format)])
          else if sublist [''conda'', ''config''] (prog # args)
                  \<or> sublist [''conda'', ''create''] (prog # args)
                  \<or> sublist [''pip'', ''install''] (prog # args)
          then [(line, Software)]
          else [])"

fun writes_of :: "stmt \<Rightarrow> (string \<times> file_format) list" where
  "writes_of (Fits_writeto p) = [(p, FITS)]"
| "writes_of (Fits_setval p key) = [(p, FITS)]"
| "writes_of (Savefig p) =
     [(p, if suffix ''.png'' p then PNG else if suffix ''.gif'' p then GIF else Other_format)]"
| "writes_of (Table_write p format) =
     [(p, if prefix ''ascii'' format then ASCII_text else Other_format)]"
| "writes_of (Tar_extract archive dir) = [(dir, Tar_member)]"
| "writes_of (Archive_download d) = [(d, FITS)]"
| "writes_of (Lib_tool f args) = lib_tool_writes f args"
| "writes_of (Shell line) = shell_writes line"
| "writes_of _ = []"

definition writes :: "stmt list \<Rightarrow> (string \<times> file_format) list" where
  "writes nb = concat (map writes_of nb)"

text \<open>The files written that are not FITS files.\<close>

definition other_than_fits :: "stmt list \<Rightarrow> (string \<times> file_format) list" where
  "other_than_fits nb = filter (\<lambda>w. snd w \<noteq> FITS) (writes nb)"

subsection \<open>Accesses to FITS keywords and columns\<close>

definition to_upper :: "char \<Rightarrow> char" where
  "to_upper c =
     (case map_of (zip ''abcdefghijklmnopqrstuvwxyz'' ''ABCDEFGHIJKLMNOPQRSTUVWXYZ'') c of
        None \<Rightarrow> c
      | Some u \<Rightarrow> u)"

text \<open>
  A lookup key names a keyword when the keyword occurs in it, whatever the case of the
  letters: \<open>'mdrizsky'\<close> names MDRIZSKY, and the patterns \<open>'GSFAIL*'\<close> and \<open>'T_GSFAIL*'\<close>
  name GSFAIL.
\<close>

definition names_keyword :: "string \<Rightarrow> string \<Rightarrow> bool" where
  "names_keyword key kw = sublist kw (map to_upper key)"

definition consumed_keywords :: "string list" where
  "consumed_keywords = [''MDRIZSKY'', ''WCSNAME'', ''GSFAIL'']"

text \<open>
  The keywords that a call of a library tool updates in FITS headers, as far as the
  notebooks say: \<open>AstroDrizzle\<close> called with \<open>skymethod\<close> ``will update the keyword
  MDRIZSKY in the headers of the input files''; \<open>TweakReg\<close> with \<open>updatehdr=True\<close> updates
  ``the header WCS'', the ``active WCS solution in the image header'' that the notebook
  reads as WCSNAME; \<open>tweakback.apply_tweak\<close> propagates ``the updated WCS information back
  to the FLT files''; \<open>updatewcs\<close> updates ``the FLT/FLC file WCS header keywords''.
\<close>

definition lib_tool_updates :: "string \<Rightarrow> (string \<times> string) list \<Rightarrow> string list" where
  "lib_tool_updates f args =
     (if f = ''astrodrizzle.AstroDrizzle'' then
        (case map_of args ''skymethod'' of None \<Rightarrow> [] | Some sky \<Rightarrow> [''MDRIZSKY''])
      else if f = ''tweakreg.TweakReg'' then
        (if map_of args ''updatehdr'' = Some ''True'' then [''WCSNAME''] else [])
      else if f = ''tweakback.apply_tweak'' then [''WCSNAME'']
      else if f = ''updatewcs.updatewcs'' then [''WCSNAME'']
      else [])"

text \<open>
  The accesses of a statement to keywords and columns, each with its kind: a lookup, an
  assignment by the notebook's own code, or an update by a library tool that the notebook
  calls.
\<close>

datatype access_mode = Lookup | Assign | Tool_update

fun accesses :: "stmt \<Rightarrow> (string \<times> access_mode) list" where
  "accesses (Key_read p key) = [(key, Lookup)]"
| "accesses (Key_write p key) = [(key, Assign)]"
| "accesses (Fits_setval p key) = [(key, Assign)]"
| "accesses (Lib_tool f args) = map (\<lambda>key. (key, Tool_update)) (lib_tool_updates f args)"
| "accesses _ = []"

text \<open>The statements of a notebook that assign to or update the keyword \<open>kw\<close>.\<close>

definition modifies :: "string \<Rightarrow> stmt \<Rightarrow> bool" where
  "modifies kw s = list_ex (\<lambda>a. snd a \<noteq> Lookup \<and> names_keyword (fst a) kw) (accesses s)"

definition read_only :: "stmt list \<Rightarrow> string \<Rightarrow> bool" where
  "read_only nb kw = (filter (modifies kw) nb = [])"

text \<open>The accesses of a notebook that are not lookups.\<close>

definition modifications :: "stmt list \<Rightarrow> (string \<times> access_mode) list" where
  "modifications nb = filter (\<lambda>a. snd a \<noteq> Lookup) (concat (map accesses nb))"

subsection \<open>The phases of a notebook\<close>







section \<open>Properties of the co-add product name\<close>

lemma str_nat_proposal_id: "str_nat proposal_id = ''8435''"
  by (simp add: proposal_id_def str_nat.simps digits10_def)

lemma lower_target_name: "map to_lower target_name = ''g191b2b''"
  by (simp add: target_name_def to_lower_def)

text \<open>
  Claim C7. The co-add product name the flux-scaling notebook reads follows the convention
  \<open>hst_<programID>_<instrument>_<target>_<grating>_<obset>_cspec.fits\<close>: it is the name the
  convention gives for program 8435 (the queried proposal), instrument stis, target g191b2b
  (the queried target, in lower case), grating e140m and obset o5jy (the first four
  characters of each input file), and cut at its underscores it is the prefix hst, these
  five fields and the suffix cspec.fits.
\<close>

theorem coadd_follows_convention:
  "coadd = cspec_name (str_nat proposal_id) ''stis'' (map to_lower target_name) ''e140m'' ''o5jy''
   \<and> split_on (CHR ''_'') [] coadd
       = [''hst'', ''8435'', ''stis'', ''g191b2b'', ''e140m'', ''o5jy'', ''cspec.fits'']
   \<and> map (take 4) files = [''o5jy'', ''o5jy'', ''o5jy'']"
  by (simp add: coadd_def cspec_name_def str_nat_proposal_id lower_target_name files_def)


section \<open>Properties of the shift-file check\<close>

lemma nan_scan_clean:
  "\<forall>l \<in> set ls. \<not> sublist ''nan'' l \<Longrightarrow> nan_scan n ls = Inr ()"
  by (induction ls arbitrary: n) auto

lemma nan_scan_first:
  "i < length ls \<Longrightarrow> sublist ''nan'' (ls ! i) \<Longrightarrow> \<forall>j < i. \<not> sublist ''nan'' (ls ! j)
   \<Longrightarrow> nan_scan n ls = Inl (Exc ValueError (nan_message (n + i)))"
proof (induction ls arbitrary: n i)
  case Nil
  then show ?case by simp
next
  case (Cons l ls)
  show ?case
  proof (cases i)
    case 0
    with Cons.prems show ?thesis by simp
  next
    case (Suc k)
    from Cons.prems Suc have head: "\<not> sublist ''nan'' l"
      by (metis nth_Cons_0 zero_less_Suc)
    from Cons.prems Suc have later: "\<forall>j < k. \<not> sublist ''nan'' (ls ! j)"
      by (metis Suc_less_eq nth_Cons_Suc)
    from Cons.prems Suc have k: "k < length ls" and hit: "sublist ''nan'' (ls ! k)"
      by simp_all
    have "nan_scan (Suc n) ls = Inl (Exc ValueError (nan_message (Suc n + k)))"
      by (rule Cons.IH [OF k hit later])
    with head Suc show ?thesis by simp
  qed
qed

lemma nan_scan_hit:
  "\<exists>l \<in> set ls. sublist ''nan'' l
   \<Longrightarrow> \<exists>k. nan_scan n ls = Inl (Exc ValueError (nan_message k))"
  by (induction ls arbitrary: n) auto

lemma nan_scan_raises:
  "nan_scan n ls = Inl e \<Longrightarrow> \<exists>l \<in> set ls. sublist ''nan'' l"
  by (induction ls arbitrary: n) (auto split: if_splits)

text \<open>
  Claim C4. With the shift file present, the check raises a ValueError exactly when some
  line of the file contains "nan"; the message of the error carries the 1-based number of
  the first such line; and when no line contains "nan" the cell ends normally, with no
  exception and nothing else done.
\<close>

theorem nan_check_cell_spec:
  assumes "fs ''shift_drz.txt'' = Some txt"
  shows "((\<exists>msg. nan_check_cell fs = Inl (Exc ValueError msg))
            \<longleftrightarrow> (\<exists>l \<in> set (file_lines txt). sublist ''nan'' l))
       \<and> (\<forall>i < length (file_lines txt).
             sublist ''nan'' (file_lines txt ! i)
             \<and> (\<forall>j < i. \<not> sublist ''nan'' (file_lines txt ! j))
             \<longrightarrow> nan_check_cell fs
                   = Inl (Exc ValueError
                       (''nan found in line '' @ str_nat (i + 1) @ '' in shift file'')))
       \<and> ((\<forall>l \<in> set (file_lines txt). \<not> sublist ''nan'' l) \<longrightarrow> nan_check_cell fs = Inr ())"
proof -
  have cell: "nan_check_cell fs = nan_scan 1 (file_lines txt)"
    using assms by (simp add: nan_check_cell_def)
  have a: "(\<exists>msg. nan_check_cell fs = Inl (Exc ValueError msg))
            \<longleftrightarrow> (\<exists>l \<in> set (file_lines txt). sublist ''nan'' l)"
    using cell nan_scan_raises [of 1 "file_lines txt"] nan_scan_hit [of "file_lines txt" 1]
    by auto
  have b: "\<forall>i < length (file_lines txt).
             sublist ''nan'' (file_lines txt ! i)
             \<and> (\<forall>j < i. \<not> sublist ''nan'' (file_lines txt ! j))
             \<longrightarrow> nan_check_cell fs
                   = Inl (Exc ValueError
                       (''nan found in line '' @ str_nat (i + 1) @ '' in shift file''))"
    using cell nan_scan_first [of _ "file_lines txt" 1]
    by (simp add: nan_message_def)
  have c: "(\<forall>l \<in> set (file_lines txt). \<not> sublist ''nan'' l) \<longrightarrow> nan_check_cell fs = Inr ()"
    using cell nan_scan_clean [of "file_lines txt" 1] by simp
  from a b c show ?thesis by blast
qed

theorem nan_check_cell_spec_witness:
  "nan_check_cell [''shift_drz.txt'' \<mapsto> ''a_drz.fits 0.1 0.2'' @ [CHR 0x0A] @ ''b_drz.fits nan nan'' @ [CHR 0x0A]]
     = Inl (Exc ValueError ''nan found in line 2 in shift file'')
   \<and> nan_check_cell [''shift_drz.txt'' \<mapsto> ''a_drz.fits 0.1 0.2'' @ [CHR 0x0A]] = Inr ()"
  using nan_check_cell_spec [of "[''shift_drz.txt'' \<mapsto> ''a_drz.fits 0.1 0.2'' @ [CHR 0x0A]]"
      "''a_drz.fits 0.1 0.2'' @ [CHR 0x0A]"]
  by (simp add: nan_check_cell_def file_lines_def nan_message_def str_nat.simps digits10_def
      sublist_code)


section \<open>Properties of the signal-to-noise ratio\<close>

lemma set_np_nonzero:
  "set (np_nonzero a) = {(r, c). r < length a \<and> c < length (a ! r) \<and> a ! r ! c \<noteq> 0}"
  by (auto simp: np_nonzero_def)

lemma np_nonzero_in_bounds: "list_all (in_bounds a) (np_nonzero a)"
  by (auto simp: list_all_iff set_np_nonzero in_bounds_def)

lemma np_nonzero_same_shape:
  "map length b = map length a \<Longrightarrow> list_all (in_bounds b) (np_nonzero a)"
proof -
  assume s: "map length b = map length a"
  then have l: "length b = length a" by (metis length_map)
  have "\<And>r. r < length a \<Longrightarrow> length (b ! r) = length (a ! r)"
    using s l by (metis nth_map)
  with l show ?thesis
    by (auto simp: list_all_iff set_np_nonzero in_bounds_def)
qed

lemma divisor_nonzero:
  "take_at SNR (np_nonzero SNR) = Inr (map (\<lambda>rc. SNR ! fst rc ! snd rc) (np_nonzero SNR))"
  by (simp add: take_at_def np_nonzero_in_bounds)

lemma nth_filter_upt:
  "map ((!) xs) (filter (\<lambda>c. P (xs ! c)) [0..<length xs]) = filter P xs"
proof -
  have "filter P xs = filter P (map ((!) xs) [0..<length xs])"
    by (simp add: map_nth)
  also have "\<dots> = map ((!) xs) (filter (P \<circ> (!) xs) [0..<length xs])"
    by (rule filter_map)
  finally show ?thesis by (simp add: comp_def)
qed

lemma divisor_is_filter:
  "map (\<lambda>rc. a ! fst rc ! snd rc) (np_nonzero a) = concat (map (filter (\<lambda>x. x \<noteq> 0)) a)"
proof -
  have "map (\<lambda>rc. a ! fst rc ! snd rc) (np_nonzero a)
        = concat (map (\<lambda>r. map ((!) (a ! r)) (filter (\<lambda>c. a ! r ! c \<noteq> 0) [0..<length (a ! r)]))
                      [0..<length a])"
    by (simp add: np_nonzero_def map_concat comp_def)
  also have "\<dots> = concat (map (\<lambda>r. filter (\<lambda>x. x \<noteq> 0) (a ! r)) [0..<length a])"
    by (simp add: nth_filter_upt [where P = "\<lambda>x. x \<noteq> 0"])
  also have "\<dots> = concat (map (filter (\<lambda>x. x \<noteq> 0)) (map ((!) a) [0..<length a]))"
    by (simp add: comp_def)
  finally show ?thesis by (simp only: map_nth)
qed

text \<open>
  Claim C10. The divisor of the ratio is the original SNR array indexed at its own nonzero
  positions: indexing it never fails, it holds exactly the nonzero elements of the array in
  row order, so none of its elements is zero; the scaled SNR and the wavelengths are taken
  at the same positions, and the ratio divides elementwise at these positions. The cell
  returns whenever the three arrays have the same shape.
\<close>

theorem snr_ratio_divisor_nonzero:
  fixes SNR :: "'a::{zero,inverse} list list"
  shows "take_at SNR (np_nonzero SNR) = Inr (concat (map (filter (\<lambda>x. x \<noteq> 0)) SNR))
       \<and> (\<forall>SNR_nonzero ratio w. snr_ratio_cell SNR SNR_scaled w_scaled = Inr (SNR_nonzero, ratio, w)
            \<longrightarrow> SNR_nonzero = concat (map (filter (\<lambda>x. x \<noteq> 0)) SNR) \<and> (\<forall>d \<in> set SNR_nonzero. d \<noteq> 0)
             \<and> ratio = map (\<lambda>rc. SNR_scaled ! fst rc ! snd rc / SNR ! fst rc ! snd rc) (np_nonzero SNR)
             \<and> w = map (\<lambda>rc. w_scaled ! fst rc ! snd rc) (np_nonzero SNR))
       \<and> (map length SNR_scaled = map length SNR \<and> map length w_scaled = map length SNR
            \<longrightarrow> (\<exists>res. snr_ratio_cell SNR SNR_scaled w_scaled = Inr res))"
proof -
  have d: "take_at SNR (np_nonzero SNR) = Inr (concat (map (filter (\<lambda>x. x \<noteq> 0)) SNR))"
    by (simp add: divisor_nonzero divisor_is_filter)
  have m: "\<And>f g (xs :: (nat \<times> nat) list). map2 (/) (map f xs) (map g xs) = map (\<lambda>x. (f x :: 'a) / g x) xs"
    by (simp add: zip_map_map map_zip_map  zip_same_conv_map)
  have r: "\<forall>SNR_nonzero ratio w. snr_ratio_cell SNR SNR_scaled w_scaled = Inr (SNR_nonzero, ratio, w)
            \<longrightarrow> SNR_nonzero = concat (map (filter (\<lambda>x. x \<noteq> 0)) SNR) \<and> (\<forall>d \<in> set SNR_nonzero. d \<noteq> 0)
             \<and> ratio = map (\<lambda>rc. SNR_scaled ! fst rc ! snd rc / SNR ! fst rc ! snd rc) (np_nonzero SNR)
             \<and> w = map (\<lambda>rc. w_scaled ! fst rc ! snd rc) (np_nonzero SNR)"
  proof (intro allI impI)
    fix SNR_nonzero ratio w
    assume "snr_ratio_cell SNR SNR_scaled w_scaled = Inr (SNR_nonzero, ratio, w)"
    then have e: "SNR_nonzero = map (\<lambda>rc. SNR ! fst rc ! snd rc) (np_nonzero SNR)"
      and "ratio = map (\<lambda>rc. SNR_scaled ! fst rc ! snd rc / SNR ! fst rc ! snd rc) (np_nonzero SNR)"
      and "w = map (\<lambda>rc. w_scaled ! fst rc ! snd rc) (np_nonzero SNR)"
      unfolding snr_ratio_cell_def divisor_nonzero
      by (auto simp: take_at_def m split: if_splits)
    moreover from e have f: "SNR_nonzero = concat (map (filter (\<lambda>x. x \<noteq> 0)) SNR)"
      by (simp only: divisor_is_filter)
    moreover from f have "\<forall>d \<in> set SNR_nonzero. d \<noteq> 0"
      by auto
    ultimately show "SNR_nonzero = concat (map (filter (\<lambda>x. x \<noteq> 0)) SNR) \<and> (\<forall>d \<in> set SNR_nonzero. d \<noteq> 0)
             \<and> ratio = map (\<lambda>rc. SNR_scaled ! fst rc ! snd rc / SNR ! fst rc ! snd rc) (np_nonzero SNR)
             \<and> w = map (\<lambda>rc. w_scaled ! fst rc ! snd rc) (np_nonzero SNR)"
      by blast
  qed
  have t: "map length SNR_scaled = map length SNR \<and> map length w_scaled = map length SNR
            \<longrightarrow> (\<exists>res. snr_ratio_cell SNR SNR_scaled w_scaled = Inr res)"
    unfolding snr_ratio_cell_def divisor_nonzero
    by (auto simp: take_at_def np_nonzero_same_shape)
  from d r t show ?thesis by blast
qed

theorem snr_ratio_divisor_nonzero_witness:
  "snr_ratio_cell [[0, 2, 4, 0 :: rat]] [[1, 3, 6, 5]] [[10, 20, 30, 40]] = Inr ([2, 4], [3 / 2, 3 / 2], [20, 30])"
  using snr_ratio_divisor_nonzero [of "[[0, 2, 4, 0 :: rat]]" "[[1, 3, 6, 5]]" "[[10, 20, 30, 40]]"]
  by (simp add: snr_ratio_cell_def take_at_def np_nonzero_def in_bounds_def)


section \<open>Properties of the rescaled spectra\<close>

lemma insort_map_mult:
  fixes c :: rat
  assumes "0 < c"
  shows "insort (x * c) (map (\<lambda>q. q * c) xs) = map (\<lambda>q. q * c) (insort x xs)"
  using assms by (induction xs) (auto simp: insort_key.simps)

lemma sort_map_mult:
  fixes c :: rat
  assumes "0 < c"
  shows "sort (map (\<lambda>q. q * c) xs) = map (\<lambda>q. q * c) (sort xs)"
  using assms by (induction xs) (simp_all add: insort_map_mult)

lemma np_median_scale:
  assumes m: "np_median a = Some m" and c: "0 < c"
  shows "np_median (scale_flux a (Some c)) = Some (m * c)"
proof -
  let ?xs = "concat a"
  from m have ne: "?xs \<noteq> []" and fin: "None \<notin> set ?xs"
    by (auto simp: np_median_def Let_def split: if_splits)
  have cc: "concat (scale_flux a (Some c)) = map (\<lambda>x. fl_mul x (Some c)) ?xs"
    by (simp add: scale_flux_def map_concat)
  have the_eq: "map the (map (\<lambda>x. fl_mul x (Some c)) ?xs) = map (\<lambda>q. q * c) (map the ?xs)"
    using fin by (induction ?xs) (auto simp: fl_mul_def split: option.splits)
  have fin': "None \<notin> set (map (\<lambda>x. fl_mul x (Some c)) ?xs)"
    using fin by (auto simp: fl_mul_def split: option.splits)
  let ?ys = "sort (map the ?xs)"
  have len: "length ?ys = length ?xs" by simp
  have pos: "0 < length ?ys" using ne by simp
  have srt: "sort (map the (map (\<lambda>x. fl_mul x (Some c)) ?xs)) = map (\<lambda>q. q * c) ?ys"
    by (simp only: the_eq sort_map_mult [OF c])
  have med: "np_median a =
      (if odd (length ?ys) then Some (?ys ! (length ?ys div 2))
       else Some ((?ys ! (length ?ys div 2 - 1) + ?ys ! (length ?ys div 2)) / 2))"
    using ne fin by (simp add: np_median_def Let_def)
  have med': "np_median (scale_flux a (Some c)) =
      (if odd (length ?ys) then Some (map (\<lambda>q. q * c) ?ys ! (length ?ys div 2))
       else Some ((map (\<lambda>q. q * c) ?ys ! (length ?ys div 2 - 1) + map (\<lambda>q. q * c) ?ys ! (length ?ys div 2)) / 2))"
    unfolding np_median_def cc Let_def srt using ne fin' by simp
  have i1: "length ?ys div 2 < length ?ys"
    by (rule div_less_dividend [OF _ pos]) simp
  have i2: "length ?ys div 2 - 1 < length ?ys"
    by (rule le_less_trans [OF diff_le_self i1])
  show ?thesis
    using m unfolding med med' nth_map [OF i1] nth_map [OF i2]
    by (auto split: if_splits simp: algebra_simps add_divide_distrib)
qed

lemma scale_flux_one: "scale_flux a (Some 1) = a"
proof -
  have "(\<lambda>x. fl_mul x (Some 1)) = id"
    by (auto simp: fl_mul_def fun_eq_iff split: option.splits)
  then show ?thesis by (simp add: scale_flux_def)
qed

lemma fl_div_pos: "m1 \<noteq> 0 \<Longrightarrow> fl_div (Some m0) (Some m1) = Some (m0 / m1)"
  by (simp add: fl_div_def)

lemma np_median_rescaled:
  assumes "np_median a = Some m" and "0 < m" and "0 < m0"
  shows "np_median (scale_flux a (fl_div (Some m0) (Some m))) = Some m0"
proof -
  from assms have "fl_div (Some m0) (Some m) = Some (m0 / m)"
    by (simp add: fl_div_pos)
  moreover from assms have "0 < m0 / m" by simp
  ultimately show ?thesis
    using np_median_scale [OF assms(1), of "m0 / m"] assms(2) by simp
qed

text \<open>
  Claim C1. With the three input spectra present, the cells run to the end and, for each
  input file i of the list, the file written to the scaled data directory is the input file
  with its FLUX column multiplied elementwise by scale_factor[i], where scale_factor is
  [1.0, median(flux_010)/median(flux_020), median(flux_010)/median(flux_030)]; the first
  (brightest) spectrum is written unchanged; and when the three medians are positive, every
  written spectrum has the median flux of the first one.
\<close>

theorem rescale_cells_spec:
  fixes fs :: "'m fits_dir"
  assumes f0: "fs (stis_data_dir @ ''/'' @ files ! 0) = Some h0"
      and f1: "fs (stis_data_dir @ ''/'' @ files ! 1) = Some h1"
      and f2: "fs (stis_data_dir @ ''/'' @ files ! 2) = Some h2"
  shows "\<exists>fs'. rescale_cells fs = Inr fs'
     \<and> (\<forall>i < 3. \<forall>h. fs (stis_data_dir @ ''/'' @ files ! i) = Some h \<longrightarrow>
           fs' (stis_scaled_data_dir @ ''/'' @ files ! i)
             = Some (h\<lparr>FLUX := map (map (\<lambda>x. fl_mul x
                   ([Some 1, fl_div (np_median (FLUX h0)) (np_median (FLUX h1)),
                     fl_div (np_median (FLUX h0)) (np_median (FLUX h2))] ! i))) (FLUX h)\<rparr>))
     \<and> fs' (stis_scaled_data_dir @ ''/'' @ files ! 0) = Some h0
     \<and> (\<forall>m0 m1 m2. np_median (FLUX h0) = Some m0 \<and> np_median (FLUX h1) = Some m1
            \<and> np_median (FLUX h2) = Some m2 \<and> 0 < m0 \<and> 0 < m1 \<and> 0 < m2 \<longrightarrow>
          (\<forall>i < 3. \<exists>h'. fs' (stis_scaled_data_dir @ ''/'' @ files ! i) = Some h'
                  \<and> np_median (FLUX h') = Some m0))"
proof -
  let ?s1 = "fl_div (np_median (FLUX h0)) (np_median (FLUX h1))"
  let ?s2 = "fl_div (np_median (FLUX h0)) (np_median (FLUX h2))"
  let ?fs' = "fs(''stis_scaled_data/o5jy03010_x1d.fits'' \<mapsto> h0\<lparr>FLUX := scale_flux (FLUX h0) (Some 1)\<rparr>,
                 ''stis_scaled_data/o5jy03020_x1d.fits'' \<mapsto> h1\<lparr>FLUX := scale_flux (FLUX h1) ?s1\<rparr>,
                 ''stis_scaled_data/o5jy03030_x1d.fits'' \<mapsto> h2\<lparr>FLUX := scale_flux (FLUX h2) ?s2\<rparr>)"
  from f0 have g0: "fs ''stis_data/o5jy03010_x1d.fits'' = Some h0"
    by (simp add: stis_data_dir_def files_def)
  from f1 have g1: "fs ''stis_data/o5jy03020_x1d.fits'' = Some h1"
    by (simp add: stis_data_dir_def files_def)
  from f2 have g2: "fs ''stis_data/o5jy03030_x1d.fits'' = Some h2"
    by (simp add: stis_data_dir_def files_def)
  have med: "median_cell fs = Inr (np_median (FLUX h0), np_median (FLUX h1), np_median (FLUX h2))"
    by (simp add: median_cell_def fits_open_def stis_data_dir_def g0 g1 g2)
  have enum: "enumerate_list files = [(0, ''o5jy03010_x1d.fits''), (1, ''o5jy03020_x1d.fits''),
                                      (2, ''o5jy03030_x1d.fits'')]"
    by (simp add: enumerate_list_def files_def upt_rec)
  have run: "rescale_cells fs = Inr ?fs'"
    by (simp add: rescale_cells_def med enum scale_factor_def fits_open_def stis_data_dir_def
        stis_scaled_data_dir_def g0 g1 g2)
  have three: "\<And>P. (\<forall>i < 3. P i) \<longleftrightarrow> P 0 \<and> P (Suc 0) \<and> P (2::nat)"
    by (auto simp: less_Suc_eq numeral_3_eq_3 numeral_2_eq_2)
  have a: "\<forall>i < 3. \<forall>h. fs (stis_data_dir @ ''/'' @ files ! i) = Some h \<longrightarrow>
           ?fs' (stis_scaled_data_dir @ ''/'' @ files ! i)
             = Some (h\<lparr>FLUX := map (map (\<lambda>x. fl_mul x ([Some 1, ?s1, ?s2] ! i))) (FLUX h)\<rparr>)"
    unfolding three
    by (simp add: stis_data_dir_def stis_scaled_data_dir_def files_def g0 g1 g2 scale_flux_def)
  have b: "?fs' (stis_scaled_data_dir @ ''/'' @ files ! 0) = Some h0"
    by (simp add: stis_scaled_data_dir_def files_def scale_flux_one)
  have c: "\<forall>m0 m1 m2. np_median (FLUX h0) = Some m0 \<and> np_median (FLUX h1) = Some m1
            \<and> np_median (FLUX h2) = Some m2 \<and> 0 < m0 \<and> 0 < m1 \<and> 0 < m2 \<longrightarrow>
          (\<forall>i < 3. \<exists>h'. ?fs' (stis_scaled_data_dir @ ''/'' @ files ! i) = Some h'
                  \<and> np_median (FLUX h') = Some m0)"
    unfolding three
    by (auto simp: stis_scaled_data_dir_def files_def scale_flux_one np_median_rescaled)
  from run a b c show ?thesis by blast
qed

theorem rescale_cells_spec_witness:
  "\<exists>fs'. rescale_cells
      [''stis_data/o5jy03010_x1d.fits'' \<mapsto> \<lparr>WAVELENGTH = [[Some 1, Some 2, Some 3]], FLUX = [[Some 4, Some 2, Some 6]]\<rparr>,
       ''stis_data/o5jy03020_x1d.fits'' \<mapsto> \<lparr>WAVELENGTH = [[Some 1, Some 2, Some 3]], FLUX = [[Some 2, Some 1, Some 3]]\<rparr>,
       ''stis_data/o5jy03030_x1d.fits'' \<mapsto> \<lparr>WAVELENGTH = [[Some 1, Some 2, Some 3]], FLUX = [[Some 1, Some 8, Some (1 / 2)]]\<rparr>]
     = Inr fs'
   \<and> fs' ''stis_scaled_data/o5jy03030_x1d.fits''
       = Some \<lparr>WAVELENGTH = [[Some 1, Some 2, Some 3]], FLUX = [[Some 4, Some 32, Some 2]]\<rparr>
   \<and> fs' ''stis_scaled_data/o5jy03010_x1d.fits''
       = Some \<lparr>WAVELENGTH = [[Some 1, Some 2, Some 3]], FLUX = [[Some 4, Some 2, Some 6]]\<rparr>"
proof -
  let ?h0 = "\<lparr>WAVELENGTH = [[Some 1, Some 2, Some 3]], FLUX = [[Some 4, Some 2, Some 6]]\<rparr> :: x1d"
  let ?h1 = "\<lparr>WAVELENGTH = [[Some 1, Some 2, Some 3]], FLUX = [[Some 2, Some 1, Some 3]]\<rparr> :: x1d"
  let ?h2 = "\<lparr>WAVELENGTH = [[Some 1, Some 2, Some 3]], FLUX = [[Some 1, Some 8, Some (1 / 2)]]\<rparr> :: x1d"
  let ?fs = "[''stis_data/o5jy03010_x1d.fits'' \<mapsto> ?h0, ''stis_data/o5jy03020_x1d.fits'' \<mapsto> ?h1,
              ''stis_data/o5jy03030_x1d.fits'' \<mapsto> ?h2]"
  have f0: "?fs (stis_data_dir @ ''/'' @ files ! 0) = Some ?h0"
    by (simp add: stis_data_dir_def files_def)
  have f1: "?fs (stis_data_dir @ ''/'' @ files ! 1) = Some ?h1"
    by (simp add: stis_data_dir_def files_def)
  have f2: "?fs (stis_data_dir @ ''/'' @ files ! 2) = Some ?h2"
    by (simp add: stis_data_dir_def files_def)
  have m0: "np_median (FLUX ?h0) = Some 4"
    by (simp add: np_median_def)
  have m2: "np_median (FLUX ?h2) = Some 1"
    by (simp add: np_median_def)
  from rescale_cells_spec [OF f0 f1 f2] obtain fs' where
    run: "rescale_cells ?fs = Inr fs'"
    and each: "\<forall>i < 3. \<forall>h. ?fs (stis_data_dir @ ''/'' @ files ! i) = Some h \<longrightarrow>
           fs' (stis_scaled_data_dir @ ''/'' @ files ! i)
             = Some (h\<lparr>FLUX := map (map (\<lambda>x. fl_mul x
                   ([Some 1, fl_div (np_median (FLUX ?h0)) (np_median (FLUX ?h1)),
                     fl_div (np_median (FLUX ?h0)) (np_median (FLUX ?h2))] ! i))) (FLUX h)\<rparr>)"
    and first: "fs' (stis_scaled_data_dir @ ''/'' @ files ! 0) = Some ?h0"
    by blast
  have "2 < (3::nat)" by simp
  from each [rule_format, OF this f2] have "fs' (stis_scaled_data_dir @ ''/'' @ files ! 2)
             = Some (?h2\<lparr>FLUX := map (map (\<lambda>x. fl_mul x
                   ([Some 1, fl_div (np_median (FLUX ?h0)) (np_median (FLUX ?h1)),
                     fl_div (np_median (FLUX ?h0)) (np_median (FLUX ?h2))] ! 2))) (FLUX ?h2)\<rparr>)"
    .
  then have third: "fs' ''stis_scaled_data/o5jy03030_x1d.fits''
       = Some \<lparr>WAVELENGTH = [[Some 1, Some 2, Some 3]], FLUX = [[Some 4, Some 32, Some 2]]\<rparr>"
    unfolding m0 m2 by (simp add: stis_scaled_data_dir_def files_def fl_div_def fl_mul_def)
  from first have "fs' ''stis_scaled_data/o5jy03010_x1d.fits'' = Some ?h0"
    by (simp add: stis_scaled_data_dir_def files_def)
  with run third show ?thesis by blast
qed


section \<open>The extraction guard at a sibling directory\<close>

lemma abs_extract_to_home:
  "abs_extract_to ''/home/user''
     = ''/home/user/hlsp_reference-atlases_hst_multi_everything_multi_v11_sed''"
  by (simp add: abs_extract_to_def abspath_def isabs_def path_join_def normpath_def
      extract_to_def suffix_def)

text \<open>
  Claim C9. The guard compares strings: a member is extracted exactly when its resolved
  path has the extraction directory's path as a prefix of characters. With the kernel in
  /home/user, the member ../hlsp_reference-atlases_hst_multi_everything_multi_v11_sed_old/x.fits
  resolves to a path in a sibling directory whose name extends the extraction directory's
  name; the guard lets it through and it is written outside the extraction directory,
  while the member ../x.fits is skipped and a member below the directory is extracted.
\<close>

theorem tar_guard_extracts_outside:
  "guard_member ''/home/user''
       ''../hlsp_reference-atlases_hst_multi_everything_multi_v11_sed_old/x.fits''
     = Extract ''/home/user/hlsp_reference-atlases_hst_multi_everything_multi_v11_sed_old/x.fits''
   \<and> member_path ''/home/user''
       ''../hlsp_reference-atlases_hst_multi_everything_multi_v11_sed_old/x.fits''
     = ''/home/user/hlsp_reference-atlases_hst_multi_everything_multi_v11_sed_old/x.fits''
   \<and> \<not> inside_dir (abs_extract_to ''/home/user'')
         ''/home/user/hlsp_reference-atlases_hst_multi_everything_multi_v11_sed_old/x.fits''
   \<and> guard_member ''/home/user'' ''../x.fits''
     = Skipped ''Skipped ../x.fits due to potential security risk''
   \<and> guard_member ''/home/user'' ''grp/redcat/trds/x.fits''
     = Extract ''/home/user/hlsp_reference-atlases_hst_multi_everything_multi_v11_sed/grp/redcat/trds/x.fits''"
  by (simp add: guard_member_def member_path_def abs_extract_to_home abspath_def isabs_def
      path_join_def normpath_def extract_to_def suffix_def inside_dir_def)


section \<open>Properties of the clean-up cell\<close>

lemma move_loop_Exception:
  "raises_only_Exception api \<Longrightarrow> move_loop api fls fs = (fs', Some e) \<Longrightarrow> is_Exception (exc_cls e)"
proof (induction fls arbitrary: fs)
  case Nil
  then show ?case by simp
next
  case (Cons f fls)
  then show ?case
    by (auto simp: raises_only_Exception_def split: prod.splits option.splits)
qed

lemma obs_loop_Exception:
  "raises_only_Exception api \<Longrightarrow> obs_loop api mp ds fs = (fs', Some e) \<Longrightarrow> is_Exception (exc_cls e)"
proof (induction ds arbitrary: fs)
  case Nil
  then show ?case by simp
next
  case (Cons d ds)
  then show ?case
    by (auto split: prod.splits option.splits dest: move_loop_Exception)
qed

lemma cleanup_body_Exception:
  assumes "raises_only_Exception api" and "cleanup_body api fs = (fs', out, Some e)"
  shows "is_Exception (exc_cls e)"
  using assms(2) obs_loop_Exception [OF assms(1)] assms(1)
  by (auto simp: cleanup_body_def Let_def raises_only_Exception_def
      split: sum.splits prod.splits option.splits if_splits)

text \<open>
  Claim C3. Whatever the directory tree and whatever the calls of the operating system do,
  as long as what they raise are instances of Exception, no exception escapes the clean-up
  cell: an exception raised inside the \<open>try\<close> is caught, the cell prints one line
  "An error occurred: ..." after what it had printed, and leaves the tree as the failed
  body left it; nothing else is done.
\<close>

theorem cleanup_cell_no_escape:
  assumes "raises_only_Exception api"
  shows "snd (snd (cleanup_cell api fs)) = None
       \<and> fst (cleanup_cell api fs) = fst (cleanup_body api fs)
       \<and> (\<forall>e. snd (snd (cleanup_body api fs)) = Some e \<longrightarrow>
            fst (snd (cleanup_cell api fs))
              = fst (snd (cleanup_body api fs)) @ [''An error occurred: '' @ exc_msg e])
       \<and> (snd (snd (cleanup_body api fs)) = None \<longrightarrow>
            fst (snd (cleanup_cell api fs)) = fst (snd (cleanup_body api fs)))"
proof (cases "cleanup_body api fs")
  case (fields fs' out r)
  show ?thesis
  proof (cases r)
    case None
    with fields show ?thesis by (simp add: cleanup_cell_def)
  next
    case (Some e)
    with fields cleanup_body_Exception [OF assms] have "is_Exception (exc_cls e)" by blast
    with fields Some show ?thesis by (simp add: cleanup_cell_def)
  qed
qed

lemma tree_api_Exception: "raises_only_Exception tree_api"
  by (auto simp: raises_only_Exception_def tree_api_def no_such_file_def split: if_splits)

theorem cleanup_cell_no_escape_witness:
  "raises_only_Exception tree_api
   \<and> cleanup_cell tree_api
         [''stis_data/mastDownload/HST/o5jy03010/o5jy03010_x1d.fits'',
          ''stis_data/mastDownload/HST/o5jy03010/o5jy03010_x1d.txt'']
       = ([''stis_data/o5jy03010_x1d.fits''], [], None)
   \<and> cleanup_cell tree_api [''stis_data/readme.txt'']
       = ([''stis_data/readme.txt''],
          [''Directory stis_data/mastDownload/HST/ doesn't exist.'',
           ''An error occurred: [Errno 2] No such file or directory: ''
             @ [CHR 0x27] @ ''stis_data/mastDownload/HST/'' @ [CHR 0x27]],
          None)"
  using cleanup_cell_no_escape [OF tree_api_Exception, of "[''stis_data/readme.txt'']"]
    tree_api_Exception
  by (simp add: cleanup_cell_def cleanup_body_def tree_api_def stis_data_dir_def below_def
      path_join_def path_name_def path_div_def suffix_def no_such_file_def)


section \<open>Properties of the notebooks' statements\<close>

lemma split_on_no_sep: "sep \<notin> set w \<Longrightarrow> split_on sep cur w = [cur @ w]"
  by (induction w arbitrary: cur) auto

lemma split_on_word:
  "sep \<notin> set w \<Longrightarrow> split_on sep cur (w @ sep # rest) = (cur @ w) # split_on sep [] rest"
  by (induction w arbitrary: cur) auto

lemma concat_map_Nil [simp]: "concat (map (\<lambda>x. []) xs) = []"
  by (induction xs) auto

lemma plain_name_no_space: "plain_name f \<Longrightarrow> CHR '' '' \<notin> set f \<and> f \<noteq> []"
  by (auto simp: plain_name_def list_all_iff)

lemma shell_words_crds:
  assumes "plain_name file"
  shows "shell_words (crds_bestrefs file)
         = [''crds'', ''bestrefs'', ''--files'', file, ''--sync-references=1'', ''--update-bestrefs'']"
proof -
  from assms have ns: "CHR '' '' \<notin> set file" and ne: "file \<noteq> []"
    by (simp_all add: plain_name_no_space)
  have "split_on (CHR '' '') [] (crds_bestrefs file)
        = [''crds'', ''bestrefs'', ''--files'', file, ''--sync-references=1'', ''--update-bestrefs'']"
    using split_on_word [OF ns, of "[]" "''--sync-references=1 --update-bestrefs''"]
    by (simp add: crds_bestrefs_def)
  with ne show ?thesis by (simp add: shell_words_def)
qed

lemma crds_matches: "plain_name file \<Longrightarrow> matches_interface (crds_bestrefs file)"
  by (simp add: matches_interface_def shell_words_crds crds_interface_def)

lemma shell_words_swrapper1:
  "shell_words ''swrapper -i ./stis_data -o ./stis_products''
     = [''swrapper'', ''-i'', ''./stis_data'', ''-o'', ''./stis_products'']"
  by (simp add: shell_words_def)

lemma shell_words_swrapper2:
  "shell_words ''swrapper -i ./stis_scaled_data -o ./stis_scaled_products''
     = [''swrapper'', ''-i'', ''./stis_scaled_data'', ''-o'', ''./stis_scaled_products'']"
  by (simp add: shell_words_def)

lemma shell_words_calacs:
  "shell_words ''calacs.e j9l960010_asn.fits'' = [''calacs.e'', ''j9l960010_asn.fits'']"
  by (simp add: shell_words_def)

lemma flux_scaling_lines:
  "concat (map shell_lines (flux_scaling_nb r))
     = [''swrapper -i ./stis_data -o ./stis_products'',
        ''swrapper -i ./stis_scaled_data -o ./stis_scaled_products'']"
  by (simp add: flux_scaling_nb_def files_def comp_def)

lemma sky_matching_lines: "concat (map shell_lines (sky_matching_nb r)) = []"
  by (auto simp: sky_matching_nb_def astrodrizzle_def comp_def)

lemma filter_transformations_lines:
  "concat (map shell_lines filter_transformations_nb)
     = [''curl -O https://archive.stsci.edu/hlsps/reference-atlases/'' @ tar_archive]"
  by (simp add: filter_transformations_nb_def reference_atlas_setup_def band_def observation_def
      filter_pairs_def chips_def enumerate_list_def comp_def)

lemma synthetic_photometry_lines:
  "concat (map shell_lines synthetic_photometry_nb)
     = [''curl -O https://archive.stsci.edu/hlsps/reference-atlases/'' @ tar_archive]"
  by (simp add: synthetic_photometry_nb_def reference_atlas_setup_def band_def observation_def)

lemma exception_report_lines: "concat (map shell_lines (exception_report_nb r)) = []"
  by (simp add: exception_report_nb_def exp_ids_def file_types_def comp_def)

lemma acs_reduction_lines:
  "concat (map shell_lines (acs_reduction_nb r))
     = ''conda list hstcal'' # map crds_bestrefs (raw_files r) @ [''calacs.e j9l960010_asn.fits'']"
proof -
  have "concat (map (\<lambda>file. [crds_bestrefs file]) (raw_files r)) = map crds_bestrefs (raw_files r)"
    by (induction "raw_files r") auto
  then show ?thesis
    by (simp add: acs_reduction_nb_def comp_def)
qed

lemma acs_polarization_lines: "concat (map shell_lines acs_polarization_nb) = []"
  by (simp add: acs_polarization_nb_def)

lemma setup_lines:
  "concat (map shell_lines setup_nb)
     = [''conda --version'',
        ''conda config --add channels conda-forge'',
        ''yes | conda create --name hasp-env python=3.11 notebook jupyterlab numpy ''
          @ ''astropy astroquery matplotlib'',
        ''conda activate hasp-env'',
        ''pip install ./hasp/.'']"
  by (simp add: setup_nb_def)

lemma other_lines_match:
  "matches_interface ''conda list hstcal''"
  "matches_interface (''curl -O https://archive.stsci.edu/hlsps/reference-atlases/'' @ tar_archive)"
  "matches_interface ''conda --version''"
  "matches_interface ''conda config --add channels conda-forge''"
  "matches_interface (''yes | conda create --name hasp-env python=3.11 notebook jupyterlab numpy ''
          @ ''astropy astroquery matplotlib'')"
  "matches_interface ''conda activate hasp-env''"
  "matches_interface ''pip install ./hasp/.''"
  by (simp_all add: matches_interface_def shell_words_def tar_archive_def)

lemma tool_lines_match:
  "matches_interface ''swrapper -i ./stis_data -o ./stis_products''"
  "matches_interface ''swrapper -i ./stis_scaled_data -o ./stis_scaled_products''"
  "matches_interface ''calacs.e j9l960010_asn.fits''"
  by (simp_all add: matches_interface_def shell_words_swrapper1 shell_words_swrapper2
      shell_words_calacs swrapper_interface_def calacs_interface_def suffix_def)

text \<open>
  Claim C6. Every shell line of the notebooks that calls swrapper, calacs.e or crds has
  the form the spec gives: the two swrapper lines give an input directory after \<open>-i\<close> and
  an output directory after \<open>-o\<close> (and none of the optional flags), calacs.e is called
  with the association file, and crds is called, for each raw file, as
  \<open>crds bestrefs --files <file> --sync-references=1 --update-bestrefs\<close>. The names of the
  raw files, which the notebook puts into the line, are plain names.
\<close>

theorem tool_invocations_match_interface:
  assumes "list_all plain_name (raw_files r)"
  shows "(\<forall>line \<in> set (concat (map shell_lines (repository r))). matches_interface line)
       \<and> map shell_words (concat (map shell_lines (flux_scaling_nb r)))
           = [[''swrapper'', ''-i'', ''./stis_data'', ''-o'', ''./stis_products''],
              [''swrapper'', ''-i'', ''./stis_scaled_data'', ''-o'', ''./stis_scaled_products'']]
       \<and> map shell_words (concat (map shell_lines (acs_reduction_nb r)))
           = [''conda'', ''list'', ''hstcal'']
             # map (\<lambda>file. [''crds'', ''bestrefs'', ''--files'', file, ''--sync-references=1'',
                              ''--update-bestrefs'']) (raw_files r)
             @ [[''calacs.e'', asn_file]]"
proof -
  from assms have plain: "\<And>file. file \<in> set (raw_files r) \<Longrightarrow> plain_name file"
    by (simp add: list_all_iff)
  have all: "\<forall>line \<in> set (concat (map shell_lines (repository r))). matches_interface line"
    unfolding repository_def map_append concat_append flux_scaling_lines sky_matching_lines
      filter_transformations_lines synthetic_photometry_lines exception_report_lines
      acs_reduction_lines acs_polarization_lines setup_lines
    using plain other_lines_match tool_lines_match by (auto simp: crds_matches)
  have sw: "map shell_words (concat (map shell_lines (flux_scaling_nb r)))
           = [[''swrapper'', ''-i'', ''./stis_data'', ''-o'', ''./stis_products''],
              [''swrapper'', ''-i'', ''./stis_scaled_data'', ''-o'', ''./stis_scaled_products'']]"
    by (simp add: flux_scaling_lines shell_words_swrapper1 shell_words_swrapper2)
  have "map shell_words (map crds_bestrefs (raw_files r))
        = map (\<lambda>file. [''crds'', ''bestrefs'', ''--files'', file, ''--sync-references=1'',
                              ''--update-bestrefs'']) (raw_files r)"
    using plain by (simp add: shell_words_crds)
  then have acs: "map shell_words (concat (map shell_lines (acs_reduction_nb r)))
           = [''conda'', ''list'', ''hstcal'']
             # map (\<lambda>file. [''crds'', ''bestrefs'', ''--files'', file, ''--sync-references=1'',
                              ''--update-bestrefs'']) (raw_files r)
             @ [[''calacs.e'', asn_file]]"
    by (simp add: acs_reduction_lines shell_words_calacs asn_file_def)
       (simp add: shell_words_def)
  from all sw acs show ?thesis by blast
qed

theorem tool_invocations_match_interface_witness:
  "list_all plain_name (raw_files sample_run)
   \<and> matches_interface ''crds bestrefs --files j9l960a7q_raw.fits --sync-references=1 --update-bestrefs''
   \<and> \<not> matches_interface ''swrapper -i ./stis_data''
   \<and> \<not> matches_interface ''crds bestrefs --files j9l960a7q_raw.fits''"
proof -
  have p: "list_all plain_name (raw_files sample_run)"
    by (simp add: sample_run_def plain_name_def)
  have "''crds bestrefs --files j9l960a7q_raw.fits --sync-references=1 --update-bestrefs''
        \<in> set (concat (map shell_lines (repository sample_run)))"
    by (simp add: repository_def acs_reduction_lines sample_run_def crds_bestrefs_def)
  with tool_invocations_match_interface [OF p]
  have "matches_interface ''crds bestrefs --files j9l960a7q_raw.fits --sync-references=1 --update-bestrefs''"
    by blast
  moreover have "\<not> matches_interface ''swrapper -i ./stis_data''"
    by (simp add: matches_interface_def shell_words_def swrapper_interface_def)
  moreover have "\<not> matches_interface ''crds bestrefs --files j9l960a7q_raw.fits''"
    by (simp add: matches_interface_def shell_words_def crds_interface_def)
  ultimately show ?thesis using p by blast
qed

section \<open>The files that the notebooks write\<close>

lemma concat_map_concat:
  "concat (map f (concat xss)) = concat (map (\<lambda>xs. concat (map f xs)) xss)"
  by (induction xss) auto

lemma split_on_after_sep:
  "\<exists>pre. split_on sep cur (w @ sep # rest) = pre @ split_on sep [] rest"
proof (induction w arbitrary: cur)
  case Nil
  have "split_on sep cur ([] @ sep # rest) = [cur] @ split_on sep [] rest" by simp
  then show ?case by blast
next
  case (Cons c w)
  show ?case
  proof (cases "c = sep")
    case True
    from Cons [of "[]"] obtain pre where "split_on sep [] (w @ sep # rest) = pre @ split_on sep [] rest"
      by blast
    then have "split_on sep cur ((c # w) @ sep # rest) = (cur # pre) @ split_on sep [] rest"
      using True by simp
    then show ?thesis by blast
  next
    case False
    from Cons [of "cur @ [c]"] obtain pre
      where "split_on sep (cur @ [c]) (w @ sep # rest) = pre @ split_on sep [] rest"
      by blast
    then have "split_on sep cur ((c # w) @ sep # rest) = pre @ split_on sep [] rest"
      using False by simp
    then show ?thesis by blast
  qed
qed

lemma shell_words_crds_any:
  "\<exists>ws. shell_words (crds_bestrefs file)
          = ''crds'' # ''bestrefs'' # ''--files'' # ws @ [''--sync-references=1'', ''--update-bestrefs'']"
proof -
  obtain pre where
    "split_on (CHR '' '') [] (file @ CHR '' '' # ''--sync-references=1 --update-bestrefs'')
       = pre @ split_on (CHR '' '') [] ''--sync-references=1 --update-bestrefs''"
    using split_on_after_sep by blast
  then have "shell_words (crds_bestrefs file)
      = ''crds'' # ''bestrefs'' # ''--files'' # filter (\<lambda>w. w \<noteq> []) pre
        @ [''--sync-references=1'', ''--update-bestrefs'']"
    by (simp add: shell_words_def crds_bestrefs_def)
  then show ?thesis by blast
qed

lemma crds_other_than_fits:
  "filter (\<lambda>w. snd w \<noteq> FITS) (shell_writes (crds_bestrefs file))
     = [(''./crds_cache'', Reference_file)]"
proof -
  obtain ws where
    w: "shell_words (crds_bestrefs file)
          = ''crds'' # ''bestrefs'' # ''--files'' # ws @ [''--sync-references=1'', ''--update-bestrefs'']"
    using shell_words_crds_any by blast
  show ?thesis
    by (simp add: shell_writes_def w split: option.split)
qed

lemma shell_writes_swrapper1:
  "shell_writes ''swrapper -i ./stis_data -o ./stis_products'' = [(''./stis_products'', FITS)]"
  by (simp add: shell_writes_def shell_words_swrapper1)

lemma shell_writes_swrapper2:
  "shell_writes ''swrapper -i ./stis_scaled_data -o ./stis_scaled_products''
     = [(''./stis_scaled_products'', FITS)]"
  by (simp add: shell_writes_def shell_words_swrapper2)

lemma shell_writes_calacs:
  "shell_writes ''calacs.e j9l960010_asn.fits'' = [(''*_flt.fits'', FITS)]"
  by (simp add: shell_writes_def shell_words_calacs cte_correct_def)

lemma shell_writes_conda_list: "shell_writes ''conda list hstcal'' = []"
  by (simp add: shell_writes_def shell_words_def sublist_code)

lemma shell_writes_curl:
  "shell_writes (''curl -O https://archive.stsci.edu/hlsps/reference-atlases/'' @ tar_archive)
     = [(tar_archive, Tar_archive)]"
  by (simp add: shell_writes_def shell_words_def tar_archive_def basename_def suffix_to_prefix)

lemma setup_writes:
  "writes setup_nb
     = [(''conda config --add channels conda-forge'', Software),
        (''yes | conda create --name hasp-env python=3.11 notebook jupyterlab numpy ''
         @ ''astropy astroquery matplotlib'', Software),
        (''pip install ./hasp/.'', Software)]"
  by (simp add: writes_def setup_nb_def shell_writes_def shell_words_def sublist_code)

lemma flux_scaling_other_than_fits:
  "other_than_fits (flux_scaling_nb r)
     = [(''stis_products/flux_vs_wavelength.png'', PNG),
        (''stis_products/snr_vs_wavelength_prescaled.png'', PNG),
        (''./stis_scaled_data/scaled_flux_vs_wavelength.png'', PNG),
        (''stis_scaled_products/scaled_rel_snr_vs_wavelength.png'', PNG)]"
  by (simp add: other_than_fits_def writes_def flux_scaling_nb_def files_def comp_def
      stis_products_dir_def stis_scaled_products_dir_def stis_scaled_data_dir_def
      stis_data_dir_def suffix_to_prefix shell_writes_swrapper1 shell_writes_swrapper2)

lemma sky_matching_other_than_fits:
  "other_than_fits (sky_matching_nb r)
     = [(''gaia_no_pm.cat'', ASCII_text), (''gaia_pm.cat'', ASCII_text),
        (''shift_drz.txt'', ASCII_text), (''*_drz_catalog_fit.match'', ASCII_text),
        (''residuals_*_drz.png'', PNG),
        (''*_drz_catalog_fit.match'', ASCII_text), (''residuals_*_drz.png'', PNG)]"
  by (simp add: other_than_fits_def writes_def sky_matching_nb_def astrodrizzle_def comp_def
      concat_map_concat keywords_ext0_def keywords_ext1_def ext_0_kws_def ext_1_kws_def
      lib_tool_writes_def filter_concat)

lemma filter_transformations_other_than_fits:
  "other_than_fits filter_transformations_nb
     = [(tar_archive, Tar_archive), (extract_to, Tar_member)]"
  using shell_writes_curl
  by (simp add: other_than_fits_def writes_def filter_transformations_nb_def
      reference_atlas_setup_def band_def observation_def filter_pairs_def chips_def
      enumerate_list_def comp_def lib_tool_writes_def)

lemma synthetic_photometry_other_than_fits:
  "other_than_fits synthetic_photometry_nb
     = [(tar_archive, Tar_archive), (extract_to, Tar_member)]"
  using shell_writes_curl
  by (simp add: other_than_fits_def writes_def synthetic_photometry_nb_def
      reference_atlas_setup_def band_def observation_def lib_tool_writes_def)

lemma exception_report_other_than_fits: "other_than_fits (exception_report_nb r) = []"
  by (simp add: other_than_fits_def writes_def exception_report_nb_def exp_ids_def
      file_types_def comp_def concat_map_concat jif_keywords_def lib_tool_writes_def
      filter_concat)

lemma acs_reduction_other_than_fits:
  "other_than_fits (acs_reduction_nb r)
     = map (\<lambda>file. (''./crds_cache'', Reference_file)) (raw_files r)"
  by (simp add: other_than_fits_def writes_def acs_reduction_nb_def comp_def filter_concat
      shell_writes_conda_list shell_writes_calacs crds_other_than_fits lib_tool_writes_def)

lemma acs_polarization_other_than_fits: "other_than_fits acs_polarization_nb = []"
  by (simp add: other_than_fits_def writes_def acs_polarization_nb_def lib_tool_writes_def)

lemma setup_other_than_fits:
  "other_than_fits setup_nb
     = [(''conda config --add channels conda-forge'', Software),
        (''yes | conda create --name hasp-env python=3.11 notebook jupyterlab numpy ''
         @ ''astropy astroquery matplotlib'', Software),
        (''pip install ./hasp/.'', Software)]"
  by (simp add: other_than_fits_def setup_writes)

lemma other_than_fits_append: "other_than_fits (a @ b) = other_than_fits a @ other_than_fits b"
  by (simp add: other_than_fits_def writes_def)

lemma setval_writes:
  "set (map (\<lambda>file. (file, FITS)) (raw_files r)) \<subseteq> set (writes (acs_reduction_nb r))"
  by (auto simp: writes_def acs_reduction_nb_def)

lemma writes_append: "writes (a @ b) = writes a @ writes b"
  by (simp add: writes_def)

lemma fits_or_other:
  "set (map snd (writes nb)) \<subseteq> insert FITS (set (map snd (other_than_fits nb)))"
  by (auto simp: other_than_fits_def)

lemma repository_other_than_fits:
  "other_than_fits (repository r)
     = [(''stis_products/flux_vs_wavelength.png'', PNG),
        (''stis_products/snr_vs_wavelength_prescaled.png'', PNG),
        (''./stis_scaled_data/scaled_flux_vs_wavelength.png'', PNG),
        (''stis_scaled_products/scaled_rel_snr_vs_wavelength.png'', PNG),
        (''gaia_no_pm.cat'', ASCII_text),
        (''gaia_pm.cat'', ASCII_text),
        (''shift_drz.txt'', ASCII_text),
        (''*_drz_catalog_fit.match'', ASCII_text),
        (''residuals_*_drz.png'', PNG),
        (''*_drz_catalog_fit.match'', ASCII_text),
        (''residuals_*_drz.png'', PNG),
        (''hlsp_reference-atlases_hst_multi_everything_multi_v11_sed.tar'', Tar_archive),
        (''hlsp_reference-atlases_hst_multi_everything_multi_v11_sed'', Tar_member),
        (''hlsp_reference-atlases_hst_multi_everything_multi_v11_sed.tar'', Tar_archive),
        (''hlsp_reference-atlases_hst_multi_everything_multi_v11_sed'', Tar_member)]
       @ map (\<lambda>file. (''./crds_cache'', Reference_file)) (raw_files r)
       @ [(''conda config --add channels conda-forge'', Software),
          (''yes | conda create --name hasp-env python=3.11 notebook jupyterlab numpy astropy astroquery matplotlib'', Software),
          (''pip install ./hasp/.'', Software)]"
  unfolding repository_def other_than_fits_append flux_scaling_other_than_fits
    sky_matching_other_than_fits filter_transformations_other_than_fits
    synthetic_photometry_other_than_fits exception_report_other_than_fits
    acs_reduction_other_than_fits acs_polarization_other_than_fits setup_other_than_fits
  by (simp add: extract_to_def tar_archive_def)

text \<open>
  Claim C2, as amended. Every file that the notebooks write, or have a tool or a command
  write, is a FITS file, a PNG image, an ASCII text file, the reference-atlas tar archive
  or a file unpacked from it, a calibration reference file fetched by crds, or a part of
  the software environment; none is a GIF. Those that are not FITS files are, in order:
  the four PNG figures of the flux-scaling notebook; in the sky-matching notebook the two
  catalogues gaia_no_pm.cat and gaia_pm.cat, the shift file shift_drz.txt of TweakReg
  and, for each of its two runs, its match catalogues and its PNG residual plots; in each
  of the two synphot notebooks the tar archive and the files unpacked from it; in the ACS
  reduction notebook the reference files that crds fetches, once for each raw file; in
  the set-up notebook what conda config, conda create and pip install set up. Among the
  FITS files are the raw files, each rewritten by \<open>fits.setval\<close>.
\<close>

theorem files_written_by_notebooks:
  "set (map snd (writes (repository r)))
     \<subseteq> {FITS, PNG, ASCII_text, Tar_archive, Tar_member, Reference_file, Software}
   \<and> other_than_fits (repository r)
     = [(''stis_products/flux_vs_wavelength.png'', PNG),
        (''stis_products/snr_vs_wavelength_prescaled.png'', PNG),
        (''./stis_scaled_data/scaled_flux_vs_wavelength.png'', PNG),
        (''stis_scaled_products/scaled_rel_snr_vs_wavelength.png'', PNG),
        (''gaia_no_pm.cat'', ASCII_text),
        (''gaia_pm.cat'', ASCII_text),
        (''shift_drz.txt'', ASCII_text),
        (''*_drz_catalog_fit.match'', ASCII_text),
        (''residuals_*_drz.png'', PNG),
        (''*_drz_catalog_fit.match'', ASCII_text),
        (''residuals_*_drz.png'', PNG),
        (''hlsp_reference-atlases_hst_multi_everything_multi_v11_sed.tar'', Tar_archive),
        (''hlsp_reference-atlases_hst_multi_everything_multi_v11_sed'', Tar_member),
        (''hlsp_reference-atlases_hst_multi_everything_multi_v11_sed.tar'', Tar_archive),
        (''hlsp_reference-atlases_hst_multi_everything_multi_v11_sed'', Tar_member)]
       @ map (\<lambda>file. (''./crds_cache'', Reference_file)) (raw_files r)
       @ [(''conda config --add channels conda-forge'', Software),
          (''yes | conda create --name hasp-env python=3.11 notebook jupyterlab numpy astropy astroquery matplotlib'', Software),
          (''pip install ./hasp/.'', Software)]
   \<and> set (map (\<lambda>file. (file, FITS)) (raw_files r)) \<subseteq> set (writes (repository r))"
proof -
  have "set (map snd (other_than_fits (repository r)))
          \<subseteq> {PNG, ASCII_text, Tar_archive, Tar_member, Reference_file, Software}"
    unfolding repository_other_than_fits by auto
  with fits_or_other [of "repository r"]
  have a: "set (map snd (writes (repository r)))
     \<subseteq> {FITS, PNG, ASCII_text, Tar_archive, Tar_member, Reference_file, Software}"
    by blast
  have c: "set (map (\<lambda>file. (file, FITS)) (raw_files r)) \<subseteq> set (writes (repository r))"
    using setval_writes [of r] by (auto simp: repository_def writes_append)
  from a repository_other_than_fits [of r] c show ?thesis by blast
qed

text \<open>
  Claim C2 as stated fails: the sky-matching notebook writes the catalogue gaia_no_pm.cat
  in the format ascii.commented_header, a text file and none of FITS, GIF and PNG.
\<close>

theorem ascii_catalogue_counterexample:
  "Table_write ''gaia_no_pm.cat'' ''ascii.commented_header'' \<in> set (repository sample_run)
   \<and> writes_of (Table_write ''gaia_no_pm.cat'' ''ascii.commented_header'')
       = [(''gaia_no_pm.cat'', ASCII_text)]
   \<and> (''gaia_no_pm.cat'', ASCII_text) \<in> set (writes (repository sample_run))
   \<and> ASCII_text \<notin> {FITS, GIF, PNG}"
  by (simp add: repository_def sky_matching_nb_def writes_def)

section \<open>The keywords that the notebooks consume\<close>

lemma names_mdrizsky [simp]:
  "\<not> names_keyword ''FLUX'' ''MDRIZSKY''" "\<not> names_keyword ''PCTECORR'' ''MDRIZSKY''"
  "\<not> names_keyword ''WCSNAME'' ''MDRIZSKY''" "names_keyword ''MDRIZSKY'' ''MDRIZSKY''"
  by (simp_all add: names_keyword_def to_upper_def sublist_code)

lemma names_wcsname [simp]:
  "\<not> names_keyword ''FLUX'' ''WCSNAME''" "\<not> names_keyword ''PCTECORR'' ''WCSNAME''"
  "names_keyword ''WCSNAME'' ''WCSNAME''" "\<not> names_keyword ''MDRIZSKY'' ''WCSNAME''"
  by (simp_all add: names_keyword_def to_upper_def sublist_code)

lemma names_gsfail [simp]:
  "\<not> names_keyword ''FLUX'' ''GSFAIL''" "\<not> names_keyword ''PCTECORR'' ''GSFAIL''"
  "\<not> names_keyword ''WCSNAME'' ''GSFAIL''" "\<not> names_keyword ''MDRIZSKY'' ''GSFAIL''"
  by (simp_all add: names_keyword_def to_upper_def sublist_code)

lemma modifications_append: "modifications (a @ b) = modifications a @ modifications b"
  by (simp add: modifications_def)

lemma flux_scaling_modifications:
  "modifications (flux_scaling_nb r) = [(''FLUX'', Assign), (''FLUX'', Assign), (''FLUX'', Assign)]"
  by (simp add: modifications_def flux_scaling_nb_def files_def comp_def)

lemma sky_matching_modifications:
  "modifications (sky_matching_nb r)
     = (''WCSNAME'', Tool_update) # map (\<lambda>f. (''WCSNAME'', Tool_update)) (drz_files r)
       @ [(''MDRIZSKY'', Tool_update), (''MDRIZSKY'', Tool_update),
          (''MDRIZSKY'', Tool_update), (''MDRIZSKY'', Tool_update)]"
  by (simp add: modifications_def sky_matching_nb_def astrodrizzle_def comp_def
      concat_map_concat keywords_ext0_def keywords_ext1_def ext_0_kws_def ext_1_kws_def
      lib_tool_updates_def filter_concat)

lemma filter_transformations_modifications: "modifications filter_transformations_nb = []"
  by (simp add: modifications_def filter_transformations_nb_def reference_atlas_setup_def
      band_def observation_def filter_pairs_def chips_def enumerate_list_def comp_def
      lib_tool_updates_def)

lemma synthetic_photometry_modifications: "modifications synthetic_photometry_nb = []"
  by (simp add: modifications_def synthetic_photometry_nb_def reference_atlas_setup_def
      band_def observation_def lib_tool_updates_def)

lemma exception_report_modifications: "modifications (exception_report_nb r) = []"
  by (simp add: modifications_def exception_report_nb_def exp_ids_def file_types_def comp_def
      concat_map_concat jif_keywords_def lib_tool_updates_def filter_concat)

lemma acs_reduction_modifications:
  "modifications (acs_reduction_nb r)
     = map (\<lambda>file. (''PCTECORR'', Assign)) (raw_files r) @ [(''WCSNAME'', Tool_update)]"
  by (simp add: modifications_def acs_reduction_nb_def comp_def lib_tool_updates_def
      filter_concat)

lemma acs_polarization_modifications: "modifications acs_polarization_nb = []"
  by (simp add: modifications_def acs_polarization_nb_def lib_tool_updates_def)

lemma setup_modifications: "modifications setup_nb = []"
  by (simp add: modifications_def setup_nb_def)

lemma repository_modifications:
  "modifications (repository r)
     = [(''FLUX'', Assign), (''FLUX'', Assign), (''FLUX'', Assign), (''WCSNAME'', Tool_update)]
       @ map (\<lambda>f. (''WCSNAME'', Tool_update)) (drz_files r)
       @ [(''MDRIZSKY'', Tool_update), (''MDRIZSKY'', Tool_update),
          (''MDRIZSKY'', Tool_update), (''MDRIZSKY'', Tool_update)]
       @ map (\<lambda>file. (''PCTECORR'', Assign)) (raw_files r)
       @ [(''WCSNAME'', Tool_update)]"
  unfolding repository_def modifications_append flux_scaling_modifications
    sky_matching_modifications filter_transformations_modifications
    synthetic_photometry_modifications exception_report_modifications
    acs_reduction_modifications acs_polarization_modifications setup_modifications
  by simp

lemma not_modified:
  assumes "modifications nb = []"
  shows "filter (modifies kw) nb = []"
proof -
  have "\<not> modifies kw s" if "s \<in> set nb" for s
  proof
    assume "modifies kw s"
    then obtain a where a: "a \<in> set (accesses s)" "snd a \<noteq> Lookup"
      by (auto simp: modifies_def list_ex_iff)
    with that have "a \<in> set (modifications nb)"
      by (auto simp: modifications_def)
    with assms show False by simp
  qed
  then show ?thesis by (simp add: filter_empty_conv)
qed

lemma flux_scaling_modifies:
  "filter (modifies ''MDRIZSKY'') (flux_scaling_nb r) = []"
  "filter (modifies ''WCSNAME'') (flux_scaling_nb r) = []"
  "filter (modifies ''GSFAIL'') (flux_scaling_nb r) = []"
  by (simp_all add: modifies_def flux_scaling_nb_def files_def comp_def)

lemma sky_matching_modifies_mdrizsky:
  "filter (modifies ''MDRIZSKY'') (sky_matching_nb r)
     = [astrodrizzle ''f160w_localmin'' ''localmin'',
        astrodrizzle ''f160w_match'' ''match'',
        astrodrizzle ''f160w_globalmin_match'' ''globalmin+match'',
        astrodrizzle ''f160w_globalmin'' ''globalmin'']"
  by (simp add: modifies_def sky_matching_nb_def astrodrizzle_def comp_def
      concat_map_concat keywords_ext0_def keywords_ext1_def ext_0_kws_def ext_1_kws_def
      lib_tool_updates_def filter_concat)

lemma sky_matching_modifies_wcsname:
  "filter (modifies ''WCSNAME'') (sky_matching_nb r)
     = Lib_tool ''tweakreg.TweakReg''
         [(''shiftfile'', ''False''), (''refcat'', ''gaia_pm.cat''), (''updatehdr'', ''True'')]
       # map (\<lambda>f. Lib_tool ''tweakback.apply_tweak'' [(''drz_file'', f @ ''[sci,1]'')])
           (drz_files r)"
  by (simp add: modifies_def sky_matching_nb_def astrodrizzle_def comp_def
      concat_map_concat keywords_ext0_def keywords_ext1_def ext_0_kws_def ext_1_kws_def
      lib_tool_updates_def filter_concat)

lemma sky_matching_modifies_gsfail: "filter (modifies ''GSFAIL'') (sky_matching_nb r) = []"
  by (simp add: modifies_def sky_matching_nb_def astrodrizzle_def comp_def
      concat_map_concat keywords_ext0_def keywords_ext1_def ext_0_kws_def ext_1_kws_def
      lib_tool_updates_def filter_concat)

lemma acs_reduction_modifies:
  "filter (modifies ''MDRIZSKY'') (acs_reduction_nb r) = []"
  "filter (modifies ''WCSNAME'') (acs_reduction_nb r)
     = [Lib_tool ''updatewcs.updatewcs'' [(''input'', ''j9l9*a[9-f]q_flt.fits'')]]"
  "filter (modifies ''GSFAIL'') (acs_reduction_nb r) = []"
  by (simp_all add: modifies_def acs_reduction_nb_def comp_def lib_tool_updates_def
      filter_concat cte_correct_def)

lemma consumed_keywords_looked_up:
  "Key_read ''f160w_match_drz_sci.fits'' ''mdrizsky'' \<in> set (repository r)"
  "set (map (\<lambda>f. Key_read f ''WCSNAME'') (drz_files r)) \<subseteq> set (repository r)"
  "Key_read ''iepp01010/iepp01010_jif.fits'' ''T_GSFAIL*'' \<in> set (repository r)"
proof -
  have m: "Key_read ''f160w_match_drz_sci.fits'' ''mdrizsky'' \<in> set (sky_matching_nb r)"
    by (simp add: sky_matching_nb_def)
  have "Key_read f ''WCSNAME'' \<in> set (sky_matching_nb r)" if "f \<in> set (drz_files r)" for f
    using that by (simp add: sky_matching_nb_def)
  then have w: "set (map (\<lambda>f. Key_read f ''WCSNAME'') (drz_files r)) \<subseteq> set (sky_matching_nb r)"
    by auto
  have g: "Key_read ''iepp01010/iepp01010_jif.fits'' ''T_GSFAIL*'' \<in> set (exception_report_nb r)"
    by (simp add: exception_report_nb_def)
  have s: "set (sky_matching_nb r) \<subseteq> set (repository r)"
    and e: "set (exception_report_nb r) \<subseteq> set (repository r)"
    by (auto simp: repository_def)
  from m s show "Key_read ''f160w_match_drz_sci.fits'' ''mdrizsky'' \<in> set (repository r)"
    by blast
  from w s show "set (map (\<lambda>f. Key_read f ''WCSNAME'') (drz_files r)) \<subseteq> set (repository r)"
    by blast
  from g e show "Key_read ''iepp01010/iepp01010_jif.fits'' ''T_GSFAIL*'' \<in> set (repository r)"
    by blast
qed

text \<open>
  Claim C5, as amended. The notebooks' own code assigns only to the column FLUX (in
  memory, before the scaled copy is written) and to the keyword PCTECORR, never to
  MDRIZSKY, WCSNAME or GSFAIL, and nothing modifies GSFAIL. MDRIZSKY and WCSNAME are
  modified, by library tools that the notebooks call: MDRIZSKY by the four runs of
  AstroDrizzle, each with a skymethod; WCSNAME by the run of TweakReg with
  \<open>updatehdr=True\<close>, by \<open>tweakback.apply_tweak\<close> for each drizzled image, and by
  \<open>updatewcs\<close> in the ACS reduction notebook. The first equation lists every access that
  is not a lookup, in order. The lookups are there: of mdrizsky from the drizzled
  products, of WCSNAME from each drizzled image, of the GSFAIL keywords from the jitter
  file.
\<close>

theorem consumed_keywords_updated_by_tools:
  "modifications (repository r)
     = [(''FLUX'', Assign), (''FLUX'', Assign), (''FLUX'', Assign), (''WCSNAME'', Tool_update)]
       @ map (\<lambda>f. (''WCSNAME'', Tool_update)) (drz_files r)
       @ [(''MDRIZSKY'', Tool_update), (''MDRIZSKY'', Tool_update),
          (''MDRIZSKY'', Tool_update), (''MDRIZSKY'', Tool_update)]
       @ map (\<lambda>file. (''PCTECORR'', Assign)) (raw_files r)
       @ [(''WCSNAME'', Tool_update)]
   \<and> filter (modifies ''MDRIZSKY'') (repository r)
       = [astrodrizzle ''f160w_localmin'' ''localmin'',
          astrodrizzle ''f160w_match'' ''match'',
          astrodrizzle ''f160w_globalmin_match'' ''globalmin+match'',
          astrodrizzle ''f160w_globalmin'' ''globalmin'']
   \<and> filter (modifies ''WCSNAME'') (repository r)
       = Lib_tool ''tweakreg.TweakReg''
           [(''shiftfile'', ''False''), (''refcat'', ''gaia_pm.cat''), (''updatehdr'', ''True'')]
         # map (\<lambda>f. Lib_tool ''tweakback.apply_tweak'' [(''drz_file'', f @ ''[sci,1]'')])
             (drz_files r)
         @ [Lib_tool ''updatewcs.updatewcs'' [(''input'', ''j9l9*a[9-f]q_flt.fits'')]]
   \<and> read_only (repository r) ''GSFAIL''
   \<and> Key_read ''f160w_match_drz_sci.fits'' ''mdrizsky'' \<in> set (repository r)
   \<and> set (map (\<lambda>f. Key_read f ''WCSNAME'') (drz_files r)) \<subseteq> set (repository r)
   \<and> Key_read ''iepp01010/iepp01010_jif.fits'' ''T_GSFAIL*'' \<in> set (repository r)"
proof -
  note none = filter_transformations_modifications synthetic_photometry_modifications
    exception_report_modifications acs_polarization_modifications setup_modifications
  have m: "filter (modifies ''MDRIZSKY'') (repository r)
       = [astrodrizzle ''f160w_localmin'' ''localmin'',
          astrodrizzle ''f160w_match'' ''match'',
          astrodrizzle ''f160w_globalmin_match'' ''globalmin+match'',
          astrodrizzle ''f160w_globalmin'' ''globalmin'']"
    by (simp add: repository_def flux_scaling_modifies sky_matching_modifies_mdrizsky
        acs_reduction_modifies none [THEN not_modified])
  have w: "filter (modifies ''WCSNAME'') (repository r)
       = Lib_tool ''tweakreg.TweakReg''
           [(''shiftfile'', ''False''), (''refcat'', ''gaia_pm.cat''), (''updatehdr'', ''True'')]
         # map (\<lambda>f. Lib_tool ''tweakback.apply_tweak'' [(''drz_file'', f @ ''[sci,1]'')])
             (drz_files r)
         @ [Lib_tool ''updatewcs.updatewcs'' [(''input'', ''j9l9*a[9-f]q_flt.fits'')]]"
    by (simp add: repository_def flux_scaling_modifies sky_matching_modifies_wcsname
        acs_reduction_modifies none [THEN not_modified])
  have g: "read_only (repository r) ''GSFAIL''"
    by (simp add: read_only_def repository_def flux_scaling_modifies
        sky_matching_modifies_gsfail acs_reduction_modifies none [THEN not_modified])
  show ?thesis
    using repository_modifications [of r] m w g consumed_keywords_looked_up [of r]
    by (intro conjI) assumption+
qed

theorem consumed_keywords_updated_by_tools_witness:
  "modifications (repository sample_run)
     = [(''FLUX'', Assign), (''FLUX'', Assign), (''FLUX'', Assign), (''WCSNAME'', Tool_update),
        (''WCSNAME'', Tool_update),
        (''MDRIZSKY'', Tool_update), (''MDRIZSKY'', Tool_update),
        (''MDRIZSKY'', Tool_update), (''MDRIZSKY'', Tool_update),
        (''PCTECORR'', Assign), (''WCSNAME'', Tool_update)]
   \<and> filter (modifies ''WCSNAME'') (repository sample_run)
       = [Lib_tool ''tweakreg.TweakReg''
            [(''shiftfile'', ''False''), (''refcat'', ''gaia_pm.cat''), (''updatehdr'', ''True'')],
          Lib_tool ''tweakback.apply_tweak'' [(''drz_file'', ''ibxl50030_drz.fits[sci,1]'')],
          Lib_tool ''updatewcs.updatewcs'' [(''input'', ''j9l9*a[9-f]q_flt.fits'')]]
   \<and> Key_read ''ibxl50030_drz.fits'' ''WCSNAME'' \<in> set (repository sample_run)"
  using consumed_keywords_updated_by_tools [of sample_run]
  by (simp add: sample_run_def)

text \<open>
  Claim C5 as stated fails: the sky-matching notebook calls AstroDrizzle with
  \<open>skymethod='localmin'\<close>, which updates the keyword MDRIZSKY in the headers of the input
  files; MDRIZSKY is not read-only in the repository.
\<close>

theorem astrodrizzle_updates_mdrizsky:
  "astrodrizzle ''f160w_localmin'' ''localmin'' \<in> set (repository sample_run)
   \<and> accesses (astrodrizzle ''f160w_localmin'' ''localmin'') = [(''MDRIZSKY'', Tool_update)]
   \<and> modifies ''MDRIZSKY'' (astrodrizzle ''f160w_localmin'' ''localmin'')
   \<and> \<not> read_only (repository sample_run) ''MDRIZSKY''"
proof -
  have a: "astrodrizzle ''f160w_localmin'' ''localmin'' \<in> set (sky_matching_nb sample_run)"
    by (simp add: sky_matching_nb_def)
  then have b: "astrodrizzle ''f160w_localmin'' ''localmin'' \<in> set (repository sample_run)"
    by (simp add: repository_def)
  have c: "accesses (astrodrizzle ''f160w_localmin'' ''localmin'') = [(''MDRIZSKY'', Tool_update)]"
    by (simp add: astrodrizzle_def lib_tool_updates_def)
  then have d: "modifies ''MDRIZSKY'' (astrodrizzle ''f160w_localmin'' ''localmin'')"
    by (simp add: modifies_def)
  from b d have "filter (modifies ''MDRIZSKY'') (repository sample_run) \<noteq> []"
    by (auto simp: filter_empty_conv)
  with b c d show ?thesis by (simp add: read_only_def)
qed

section \<open>The order of the phases\<close>






































end
